theory Spec2Isabelle
  imports Complex_Main "HOL-Library.Char_ord" "HOL-Library.Log_Nat"
begin

section \<open>Numbers\<close>

text \<open>
  The front-end computes with JavaScript numbers. They are modelled as exact rationals
  (\<^typ>\<open>rat\<close>): a value of the model is a finite number, and rounding to a double is left
  out, except for the price formula, which is also given in doubles further down. A division whose divisor is not a constant can leave the finite numbers
  (\<open>x / 0\<close> is \<open>NaN\<close> or an infinity in JavaScript); such a division is \<open>num_div\<close>,
  which answers \<open>None\<close> exactly then. Values of type \<open>bigint\<close> that the contract returns
  for \<open>uint256\<close> are natural numbers.
\<close>

definition num_div :: "rat \<Rightarrow> rat \<Rightarrow> rat option" where
  "num_div a b = (if b = 0 then None else Some (a / b))"

text \<open>\<open>Number(ethers.formatUnits(v, 6))\<close>: the amount \<open>v\<close> read with six decimals.\<close>

definition formatUnits6 :: "nat \<Rightarrow> rat" where
  "formatUnits6 v = of_nat v / 1000000"

section \<open>The AMM price formula\<close>

text \<open>
  \<^verbatim>\<open>function calculateAMMPrices(yesVolume, noVolume, initialLiquidity = 1000)\<close>.
  The three local constants of the source are functions of the arguments here; the result
  record is present when the two divisions by \<open>total\<close> (\<open>total_shares\<close> here) are finite.
\<close>

record amm_prices =
  amm_yesPrice :: rat
  amm_noPrice :: rat

definition yesShares :: "rat \<Rightarrow> rat \<Rightarrow> rat" where
  "yesShares yesVolume initialLiquidity = (initialLiquidity / 2) + yesVolume"

definition noShares :: "rat \<Rightarrow> rat \<Rightarrow> rat" where
  "noShares noVolume initialLiquidity = (initialLiquidity / 2) + noVolume"

definition total_shares :: "rat \<Rightarrow> rat \<Rightarrow> rat \<Rightarrow> rat" where
  "total_shares yesVolume noVolume initialLiquidity =
     yesShares yesVolume initialLiquidity + noShares noVolume initialLiquidity"

definition calculateAMMPrices :: "rat \<Rightarrow> rat \<Rightarrow> rat \<Rightarrow> amm_prices option" where
  "calculateAMMPrices yesVolume noVolume initialLiquidity =
     (case num_div (noShares noVolume initialLiquidity)
             (total_shares yesVolume noVolume initialLiquidity) of
        None \<Rightarrow> None
      | Some qy \<Rightarrow>
          (case num_div (yesShares yesVolume initialLiquidity)
                  (total_shares yesVolume noVolume initialLiquidity) of
             None \<Rightarrow> None
           | Some qn \<Rightarrow> Some \<lparr>amm_yesPrice = qy * 100, amm_noPrice = qn * 100\<rparr>))"

text \<open>The default value of the third parameter.\<close>

definition defaultInitialLiquidity :: rat where
  "defaultInitialLiquidity = 1000"

section \<open>The price formula in doubles\<close>

text \<open>
  Where a claim turns on the rounding of JavaScript numbers, the formula is also given
  as the source runs it, in IEEE 754 binary64. A finite double is a rational; \<open>pow2 k\<close>
  is the power of two with the integer exponent \<open>k\<close>.
\<close>

definition pow2 :: "int \<Rightarrow> rat" where
  "pow2 k = 2 powi k"

text \<open>
  The binary exponent of a number other than zero: \<open>pow2 (exponent x) \<le> \<bar>x\<bar> < pow2 (exponent x + 1)\<close>.
\<close>

definition exponent :: "rat \<Rightarrow> int" where
  "exponent x =
     (if \<bar>x\<bar> \<ge> 1 then bitlen \<lfloor>\<bar>x\<bar>\<rfloor> - 1 else - bitlen (\<lceil>1 / \<bar>x\<bar>\<rceil> - 1))"

text \<open>
  The spacing of the doubles around \<open>x\<close>: 53 significant bits, and from the exponent
  -1022 downwards the fixed spacing \<open>pow2 (- 1074)\<close> of the subnormal numbers.
\<close>

definition quantum :: "rat \<Rightarrow> rat" where
  "quantum x = pow2 (max (exponent x) (- 1022) - 52)"

text \<open>Rounding to the nearest integer, to the even one on a tie.\<close>

definition round_even :: "rat \<Rightarrow> int" where
  "round_even r =
     (if r - of_int \<lfloor>r\<rfloor> < 1 / 2 then \<lfloor>r\<rfloor>
      else if r - of_int \<lfloor>r\<rfloor> > 1 / 2 then \<lfloor>r\<rfloor> + 1
      else if even \<lfloor>r\<rfloor> then \<lfloor>r\<rfloor> else \<lfloor>r\<rfloor> + 1)"

text \<open>
  The multiple of the spacing nearest to \<open>x\<close> (round to nearest, ties to even), and the
  double that an operation with the exact result \<open>x\<close> returns: \<open>None\<close> when the rounded
  magnitude reaches \<open>pow2 1024\<close>, where the source gets an infinity. The sign of a
  zero is not kept.
\<close>

definition nearest :: "rat \<Rightarrow> rat" where
  "nearest x = of_int (round_even (x / quantum x)) * quantum x"

definition to_double :: "rat \<Rightarrow> rat option" where
  "to_double x = (if \<bar>nearest x\<bar> \<ge> pow2 1024 then None else Some (nearest x))"

text \<open>The numbers that are doubles: the multiples of their own spacing.\<close>

definition representable :: "rat \<Rightarrow> bool" where
  "representable a = (\<exists>m::int. a = of_int m * quantum a)"

text \<open>
  \<open>+\<close>, \<open>*\<close> and \<open>/\<close> on finite doubles. A result that is not a finite double (an
  overflow, or a division by zero) is \<open>None\<close>.
\<close>

definition dbl_add :: "rat \<Rightarrow> rat \<Rightarrow> rat option" where
  "dbl_add a b = to_double (a + b)"

definition dbl_mul :: "rat \<Rightarrow> rat \<Rightarrow> rat option" where
  "dbl_mul a b = to_double (a * b)"

definition dbl_div :: "rat \<Rightarrow> rat \<Rightarrow> rat option" where
  "dbl_div a b = (if b = 0 then None else to_double (a / b))"

text \<open>
  \<^verbatim>\<open>calculateAMMPrices\<close> with every operation of the source rounded to a double:
  \<open>yesShares\<close>, \<open>noShares\<close>, \<open>total\<close> and the two prices. The result is \<open>None\<close> as soon
  as one operation leaves the finite doubles; what the source goes on to compute from an
  infinity or a \<open>NaN\<close> is not modelled.
\<close>

definition yesShares_double :: "rat \<Rightarrow> rat \<Rightarrow> rat option" where
  "yesShares_double yesVolume initialLiquidity =
     Option.bind (dbl_div initialLiquidity 2) (\<lambda>half. dbl_add half yesVolume)"

definition noShares_double :: "rat \<Rightarrow> rat \<Rightarrow> rat option" where
  "noShares_double noVolume initialLiquidity =
     Option.bind (dbl_div initialLiquidity 2) (\<lambda>half. dbl_add half noVolume)"

definition total_double :: "rat \<Rightarrow> rat \<Rightarrow> rat \<Rightarrow> rat option" where
  "total_double yesVolume noVolume initialLiquidity =
     Option.bind (yesShares_double yesVolume initialLiquidity) (\<lambda>yesShares.
     Option.bind (noShares_double noVolume initialLiquidity) (\<lambda>noShares.
       dbl_add yesShares noShares))"

definition calculateAMMPrices_double :: "rat \<Rightarrow> rat \<Rightarrow> rat \<Rightarrow> amm_prices option" where
  "calculateAMMPrices_double yesVolume noVolume initialLiquidity =
     Option.bind (yesShares_double yesVolume initialLiquidity) (\<lambda>yesShares.
     Option.bind (noShares_double noVolume initialLiquidity) (\<lambda>noShares.
     Option.bind (total_double yesVolume noVolume initialLiquidity) (\<lambda>total.
     Option.bind (dbl_div noShares total) (\<lambda>qy.
     Option.bind (dbl_mul qy 100) (\<lambda>yesPrice.
     Option.bind (dbl_div yesShares total) (\<lambda>qn.
     Option.bind (dbl_mul qn 100) (\<lambda>noPrice.
       Some \<lparr>amm_yesPrice = yesPrice, amm_noPrice = noPrice\<rparr>)))))))"

section \<open>Markets, contract tuples and positions\<close>

text \<open>\<^verbatim>\<open>type Market\<close> and the constant \<^verbatim>\<open>MARKETS\<close> (the field \<open>id\<close> is \<open>market_id\<close>).\<close>

record Market =
  market_id :: nat
  title :: string
  image :: string
  volume :: string
  chance :: rat
  category :: string

definition MARKETS :: "Market list" where
  "MARKETS =
    [\<lparr>market_id = 1, title = ''Will SpaceX Starship reach orbit in 2025?'',
      image = ''https://images.unsplash.com/photo-1517976487492-5750f3195933?q=80&w=1000&auto=format&fit=crop'',
      volume = ''$4.2M'', chance = 78, category = ''Science''\<rparr>,
     \<lparr>market_id = 2, title = ''Fed Interest Rate Decision: Cut in December?'',
      image = ''https://images.unsplash.com/photo-1611974765270-ca1258634369?q=80&w=1000&auto=format&fit=crop'',
      volume = ''$12.5M'', chance = 42, category = ''Economics''\<rparr>,
     \<lparr>market_id = 3, title = ''Bitcoin to break $100k before Q3?'',
      image = ''https://images.unsplash.com/photo-1518546305927-5a555bb7020d?q=80&w=1000&auto=format&fit=crop'',
      volume = ''$89.1M'', chance = 65, category = ''Crypto''\<rparr>,
     \<lparr>market_id = 4, title = ''Apple to announce foldable iPhone this year?'',
      image = ''https://images.unsplash.com/photo-1510557880182-3d4d3cba35a5?q=80&w=1000&auto=format&fit=crop'',
      volume = ''$1.8M'', chance = 12, category = ''Tech''\<rparr>,
     \<lparr>market_id = 5, title = ''Who will win the 2026 World Cup?'',
      image = ''https://images.unsplash.com/photo-1522770179533-24471fcdba45?q=80&w=1000&auto=format&fit=crop'',
      volume = ''$5.6M'', chance = 18, category = ''Sports''\<rparr>,
     \<lparr>market_id = 6, title = ''GPT-5 release date before June 2025?'',
      image = ''https://images.unsplash.com/photo-1677442136019-21780ecad995?q=80&w=1000&auto=format&fit=crop'',
      volume = ''$3.4M'', chance = 88, category = ''AI''\<rparr>]"

text \<open>
  The tuple that \<^verbatim>\<open>getPosition\<close> returns (\<^verbatim>\<open>CONTRACT_ABI\<close>); the source reads it as
  \<open>pos.marketId\<close>, \<open>pos.trader\<close>, and so on. The \<open>uint256\<close> fields arrive as \<open>bigint\<close>.
\<close>

record contract_position =
  pos_marketId :: string
  pos_trader :: string
  pos_isLongYes :: bool
  pos_entryPrice :: nat
  pos_collateral :: nat
  pos_leverage :: nat
  pos_openedAt :: nat
  pos_isOpen :: bool

text \<open>
  \<^verbatim>\<open>type Position\<close> (the field \<open>id\<close> is \<open>position_id\<close>). \<open>collateral\<close> stays a \<open>bigint\<close>;
  \<open>currentPrice\<close> and \<open>pnl\<close> are the two optional fields.
\<close>

record Position =
  position_id :: nat
  marketId :: string
  trader :: string
  isLongYes :: bool
  entryPrice :: rat
  collateral :: nat
  leverage :: rat
  openedAt :: rat
  isOpen :: bool
  currentPrice :: "rat option"
  pnl :: "rat option"

text \<open>\<^verbatim>\<open>type MarketStats\<close> (the field \<open>id\<close> is \<open>stats_id\<close>).\<close>

record MarketStats =
  stats_id :: nat
  yesVolume :: rat
  noVolume :: rat
  yesPrice :: rat
  noPrice :: rat
  totalVolume :: rat

text \<open>
  The source marks its two treatments of a trade or position in comments as
  \<open>Spot\<close> and \<open>Perpetual\<close>; \<open>path\<close> names the branch of an \<open>if\<close> that is taken.
\<close>

datatype path = Spot | Perpetual

text \<open>\<open>String.prototype.toLowerCase\<close> on the ASCII letters (addresses are hexadecimal).\<close>

definition lower_char :: "char \<Rightarrow> char" where
  "lower_char c =
     (if CHR ''A'' \<le> c \<and> c \<le> CHR ''Z'' then char_of (of_char c + (32::nat)) else c)"

definition toLowerCase :: "string \<Rightarrow> string" where
  "toLowerCase s = map lower_char s"

section \<open>fetchPositions\<close>

text \<open>
  \<^verbatim>\<open>const market = MARKETS.find(m => m.title === pos.marketId)\<close> and
  \<^verbatim>\<open>const currentPrice = market ? (pos.isLongYes ? market.chance : 100 - market.chance) : pos.entryPrice\<close>;
  the value is given as the source uses it everywhere, under \<open>Number(...)\<close>.
\<close>

definition fetch_currentPrice :: "contract_position \<Rightarrow> rat" where
  "fetch_currentPrice pos =
     (case find (\<lambda>m. title m = pos_marketId pos) MARKETS of
        Some market \<Rightarrow> (if pos_isLongYes pos then chance market else 100 - chance market)
      | None \<Rightarrow> of_nat (pos_entryPrice pos))"

text \<open>The branch \<^verbatim>\<open>if (pos.leverage === BigInt(1))\<close> of the PnL calculation.\<close>

definition fetch_path :: "contract_position \<Rightarrow> path" where
  "fetch_path pos = (if pos_leverage pos = 1 then Spot else Perpetual)"

definition fetch_pnl :: "contract_position \<Rightarrow> rat" where
  "fetch_pnl pos =
     (let currentPrice = fetch_currentPrice pos in
      case fetch_path pos of
        Spot \<Rightarrow> (currentPrice - of_nat (pos_entryPrice pos)) / 100
      | Perpetual \<Rightarrow>
          (let collateralUSDC = formatUnits6 (pos_collateral pos) in
           ((currentPrice - of_nat (pos_entryPrice pos)) / 100) * collateralUSDC
             * of_nat (pos_leverage pos)))"

text \<open>The object pushed onto \<open>userPositions\<close> for the tuple fetched under index \<open>i\<close>.\<close>

definition toPosition :: "nat \<Rightarrow> contract_position \<Rightarrow> Position" where
  "toPosition i pos =
     \<lparr>position_id = i,
      marketId = pos_marketId pos,
      trader = pos_trader pos,
      isLongYes = pos_isLongYes pos,
      entryPrice = of_nat (pos_entryPrice pos),
      collateral = pos_collateral pos,
      leverage = of_nat (pos_leverage pos),
      openedAt = of_nat (pos_openedAt pos),
      isOpen = pos_isOpen pos,
      currentPrice = Some (fetch_currentPrice pos),
      pnl = Some (fetch_pnl pos)\<rparr>"

text \<open>
  What the front-end sees of the chain: \<open>nextPositionId\<close> is \<open>None\<close> when setting up the
  provider or the call throws, and \<open>getPosition i\<close> is \<open>None\<close> when that call throws.
\<close>

record chain =
  nextPositionId :: "nat option"
  getPosition :: "nat \<Rightarrow> contract_position option"

text \<open>
  One round of \<^verbatim>\<open>for (let i = 1; i < Number(nextId); i++)\<close>: a call that throws is
  skipped (\<open>continue\<close>), a tuple of another trader or a closed one is passed over.
\<close>

definition fetch_step :: "chain \<Rightarrow> string \<Rightarrow> Position list \<Rightarrow> nat \<Rightarrow> Position list" where
  "fetch_step c address userPositions i =
     (case getPosition c i of
        None \<Rightarrow> userPositions
      | Some pos \<Rightarrow>
          (if toLowerCase (pos_trader pos) = toLowerCase address \<and> pos_isOpen pos
           then userPositions @ [toPosition i pos]
           else userPositions))"

definition fetch_loop :: "chain \<Rightarrow> string \<Rightarrow> nat \<Rightarrow> Position list" where
  "fetch_loop c address nextId = foldl (fetch_step c address) [] [1..<nextId]"

section \<open>The state of the page\<close>

text \<open>
  \<^verbatim>\<open>showNotification(message, type)\<close> stores one notification. The two messages of
  \<^verbatim>\<open>handleClosePosition\<close> are \<open>PositionClosed pnl\<close> for
  \<^verbatim>\<open>`Position closed! Realized PnL: ${pnlFormatted}`\<close> and \<open>FailedToClose\<close> for
  \<^verbatim>\<open>"Failed to close position"\<close>.
\<close>

datatype notification_type = success | error

datatype notification_message = PositionClosed rat | FailedToClose

record notification_record =
  message :: notification_message
  ntype :: notification_type

text \<open>
  The hooks of \<^verbatim>\<open>Home\<close> that the handlers read and write: \<open>wallets\<close> (each wallet by its
  address), \<open>positions\<close>, \<open>closingPositionId\<close>, \<open>marketStats\<close> (a
  \<^verbatim>\<open>Record<number, MarketStats>\<close>) and \<open>notification\<close>. \<open>fetchesStarted\<close> counts the calls
  of \<^verbatim>\<open>fetchPositions()\<close> that a handler starts without awaiting them.
\<close>

record page_state =
  wallets :: "string list"
  positions :: "Position list"
  closingPositionId :: "nat option"
  marketStats :: "nat \<Rightarrow> MarketStats option"
  notification :: "notification_record option"
  fetchesStarted :: nat

definition showNotification :: "notification_message \<Rightarrow> notification_type \<Rightarrow> page_state \<Rightarrow> page_state" where
  "showNotification msg ty s = s\<lparr>notification := Some \<lparr>message = msg, ntype = ty\<rparr>\<rparr>"

text \<open>
  \<^verbatim>\<open>const fetchPositions = async () => ...\<close>: without a wallet the list is emptied; when
  the outer \<open>try\<close> catches, the list is left as it is.
\<close>

definition fetchPositions :: "chain \<Rightarrow> page_state \<Rightarrow> page_state" where
  "fetchPositions c s =
     (case wallets s of
        [] \<Rightarrow> s\<lparr>positions := []\<rparr>
      | wallet # _ \<Rightarrow>
          (case nextPositionId c of
             None \<Rightarrow> s
           | Some nextId \<Rightarrow> s\<lparr>positions := fetch_loop c wallet nextId\<rparr>))"

section \<open>handleClosePosition\<close>

text \<open>
  The awaited calls of the \<open>try\<close> block, in the order of the source:
  \<^verbatim>\<open>wallet.switchChain\<close>, \<^verbatim>\<open>wallet.getEthereumProvider\<close>, \<^verbatim>\<open>provider.getSigner\<close>,
  \<^verbatim>\<open>contract.closePosition\<close> (the transaction is sent) and \<^verbatim>\<open>tx.wait\<close> (it is confirmed).
  An environment says of each call whether it resolves; a call that does not, throws.
  A call that never settles leaves the handler waiting and is no outcome of it.
\<close>

datatype close_call = SwitchChain | GetEthereumProvider | GetSigner | SendClosePosition | WaitConfirmation

definition close_calls :: "close_call list" where
  "close_calls = [SwitchChain, GetEthereumProvider, GetSigner, SendClosePosition, WaitConfirmation]"

text \<open>The first call that throws, if one does.\<close>

definition first_throw :: "(close_call \<Rightarrow> bool) \<Rightarrow> close_call option" where
  "first_throw resolves = find (\<lambda>c. \<not> resolves c) close_calls"

text \<open>
  The price at closing: the dynamic price of \<open>marketStats\<close> when the market has an entry,
  the static chance otherwise, and the entry price when no market has the title.
\<close>

definition close_currentPrice :: "(nat \<Rightarrow> MarketStats option) \<Rightarrow> Position \<Rightarrow> rat" where
  "close_currentPrice stats_of position =
     (case find (\<lambda>m. title m = marketId position) MARKETS of
        None \<Rightarrow> entryPrice position
      | Some market \<Rightarrow>
          (case stats_of (market_id market) of
             Some stats \<Rightarrow> (if isLongYes position then yesPrice stats else noPrice stats)
           | None \<Rightarrow> (if isLongYes position then chance market else 100 - chance market)))"

text \<open>The branch \<^verbatim>\<open>if (position.leverage === 1)\<close> of the realized PnL.\<close>

definition close_path :: "Position \<Rightarrow> path" where
  "close_path position = (if leverage position = 1 then Spot else Perpetual)"

definition close_pnl :: "(nat \<Rightarrow> MarketStats option) \<Rightarrow> Position \<Rightarrow> rat" where
  "close_pnl stats_of position =
     (let currentPrice = close_currentPrice stats_of position in
      case close_path position of
        Spot \<Rightarrow>
          (let collateralUSDC = formatUnits6 (collateral position);
               priceDiffPercent = (currentPrice - entryPrice position) / 100
           in collateralUSDC * priceDiffPercent)
      | Perpetual \<Rightarrow>
          (let collateralUSDC = formatUnits6 (collateral position)
           in ((currentPrice - entryPrice position) / 100) * collateralUSDC * leverage position))"

text \<open>
  The body of the \<open>try\<close> once every call has resolved, and the \<open>catch\<close> block.
\<close>

definition close_succeeded :: "nat \<Rightarrow> Position \<Rightarrow> page_state \<Rightarrow> page_state" where
  "close_succeeded positionId position s =
     (let p = close_pnl (marketStats s) position;
          s1 = showNotification (PositionClosed p) (if p \<ge> 0 then success else error) s;
          s2 = s1\<lparr>positions := filter (\<lambda>q. position_id q \<noteq> positionId) (positions s1)\<rparr>
      in s2\<lparr>fetchesStarted := fetchesStarted s2 + 1\<rparr>)"

definition close_failed :: "page_state \<Rightarrow> page_state" where
  "close_failed s = showNotification FailedToClose error s"

text \<open>
  \<^verbatim>\<open>const handleClosePosition = async (positionId: number) => ...\<close>: two guards, then
  \<open>setClosingPositionId(positionId)\<close>, the \<open>try\<close>/\<open>catch\<close>, and
  \<open>setClosingPositionId(null)\<close> in \<open>finally\<close>.
\<close>

definition handleClosePosition :: "(close_call \<Rightarrow> bool) \<Rightarrow> nat \<Rightarrow> page_state \<Rightarrow> page_state" where
  "handleClosePosition resolves positionId s =
     (if wallets s = [] then s
      else case find (\<lambda>p. position_id p = positionId) (positions s) of
        None \<Rightarrow> s
      | Some position \<Rightarrow>
          (let s1 = s\<lparr>closingPositionId := Some positionId\<rparr>;
               s2 = (case first_throw resolves of
                       None \<Rightarrow> close_succeeded positionId position s1
                     | Some _ \<Rightarrow> close_failed s1)
           in s2\<lparr>closingPositionId := None\<rparr>))"

section \<open>Market statistics\<close>

text \<open>
  The effect that recomputes \<open>marketStats\<close> from \<open>positions\<close>. For one market, the inner
  \<open>forEach\<close> adds the collateral of each position to \<open>yesVolume\<close> or to \<open>noVolume\<close>.
\<close>

definition add_volume :: "rat \<times> rat \<Rightarrow> Position \<Rightarrow> rat \<times> rat" where
  "add_volume vols pos =
     (let volumeUSDC = formatUnits6 (collateral pos) in
      if isLongYes pos then (fst vols + volumeUSDC, snd vols)
      else (fst vols, snd vols + volumeUSDC))"

definition marketPositions :: "Position list \<Rightarrow> Market \<Rightarrow> Position list" where
  "marketPositions ps market = filter (\<lambda>p. marketId p = title market \<and> isOpen p) ps"

definition market_volumes :: "Position list \<Rightarrow> Market \<Rightarrow> rat \<times> rat" where
  "market_volumes ps market = foldl add_volume (0, 0) (marketPositions ps market)"

text \<open>
  The object stored under \<open>stats[market.id]\<close>. It is \<open>None\<close> when the prices are not
  finite numbers, which the model does not represent; the volumes of positions are not
  negative, and \<open>market_entry_eq\<close> below shows that this does not happen.
\<close>

definition market_entry :: "Position list \<Rightarrow> Market \<Rightarrow> MarketStats option" where
  "market_entry ps market =
     (let vols = market_volumes ps market in
      case calculateAMMPrices (fst vols) (snd vols) defaultInitialLiquidity of
        None \<Rightarrow> None
      | Some pr \<Rightarrow>
          Some \<lparr>stats_id = market_id market,
                yesVolume = fst vols,
                noVolume = snd vols,
                yesPrice = amm_yesPrice pr,
                noPrice = amm_noPrice pr,
                totalVolume = fst vols + snd vols\<rparr>)"

text \<open>\<^verbatim>\<open>MARKETS.forEach(market => ...)\<close>, filling \<open>stats\<close>, which starts empty.\<close>

fun stats_loop ::
  "Position list \<Rightarrow> Market list \<Rightarrow> (nat \<Rightarrow> MarketStats option) \<Rightarrow> (nat \<Rightarrow> MarketStats option) option" where
  "stats_loop ps [] stats = Some stats"
| "stats_loop ps (market # ms) stats =
     (case market_entry ps market of
        None \<Rightarrow> None
      | Some e \<Rightarrow> stats_loop ps ms (stats(market_id market \<mapsto> e)))"

definition computeMarketStats :: "Position list \<Rightarrow> (nat \<Rightarrow> MarketStats option) option" where
  "computeMarketStats ps = stats_loop ps MARKETS Map.empty"

section \<open>handleTrade\<close>

text \<open>
  \<^verbatim>\<open>parseFloat\<close> can answer \<open>NaN\<close> or an infinity, so its result is a \<open>number\<close> with
  these values besides the finite ones. The function itself belongs to the language and
  is a parameter of the model.
\<close>

datatype number = NaN | PosInfinity | NegInfinity | Finite rat

text \<open>\<^verbatim>\<open>x || 10\<close> on numbers: \<open>NaN\<close> and zero are falsy.\<close>

definition or_10 :: "number \<Rightarrow> number" where
  "or_10 x =
     (case x of
        NaN \<Rightarrow> Finite 10
      | Finite q \<Rightarrow> (if q = 0 then Finite 10 else Finite q)
      | PosInfinity \<Rightarrow> PosInfinity
      | NegInfinity \<Rightarrow> NegInfinity)"

text \<open>
  The string that \<^verbatim>\<open>toFixed(6)\<close> gives: a decimal numeral with six fraction digits,
  written here as its number of millionths, or no decimal numeral at all
  (\<open>"NaN"\<close>, \<open>"Infinity"\<close>, and the exponent notation from \<open>10^21\<close> on). The magnitude is
  rounded to the nearest millionth, the larger on a tie, and the sign is put in front.
\<close>

datatype fixed_string = Decimal6 int | NoDecimal

definition toFixed6 :: "number \<Rightarrow> fixed_string" where
  "toFixed6 x =
     (case x of
        Finite q \<Rightarrow>
          (if \<bar>q\<bar> \<ge> 10 ^ 21 then NoDecimal
           else if q < 0 then Decimal6 (- \<lfloor>\<bar>q\<bar> * 1000000 + 1 / 2\<rfloor>)
           else Decimal6 \<lfloor>\<bar>q\<bar> * 1000000 + 1 / 2\<rfloor>)
      | _ \<Rightarrow> NoDecimal)"

text \<open>
  \<^verbatim>\<open>ethers.parseUnits(str, 6)\<close>: the integer of millionths of a decimal numeral; any other
  string makes it throw.
\<close>

datatype trade_error = InvalidAmount | SetupFailed

definition parseUnits6 :: "fixed_string \<Rightarrow> trade_error + int" where
  "parseUnits6 str = (case str of Decimal6 n \<Rightarrow> Inr n | NoDecimal \<Rightarrow> Inl InvalidAmount)"

text \<open>
  The props and state of \<^verbatim>\<open>ExpandedMarketView\<close> that \<^verbatim>\<open>handleTrade(side)\<close> reads.
\<close>

datatype side = YES | NO

record trade_input =
  trade_side :: side
  tradeAmount :: string
  trade_leverage :: rat
  trade_market :: Market
  trade_yesPrice :: rat
  trade_noPrice :: rat

text \<open>\<^verbatim>\<open>const amount = parseFloat(tradeAmount) || 10\<close>.\<close>

definition trade_amount :: "(string \<Rightarrow> number) \<Rightarrow> trade_input \<Rightarrow> number" where
  "trade_amount parseFloat inp = or_10 (parseFloat (tradeAmount inp))"

text \<open>The branch \<^verbatim>\<open>if (leverage > 1)\<close> of the collateral calculation.\<close>

definition trade_path :: "trade_input \<Rightarrow> path" where
  "trade_path inp = (if trade_leverage inp > 1 then Perpetual else Spot)"

definition collateralAmount :: "(string \<Rightarrow> number) \<Rightarrow> trade_input \<Rightarrow> trade_error + int" where
  "collateralAmount parseFloat inp =
     (let amount = trade_amount parseFloat inp in
      case trade_path inp of
        Perpetual \<Rightarrow> parseUnits6 (toFixed6 amount)
      | Spot \<Rightarrow> parseUnits6 (toFixed6 amount))"

text \<open>
  The call \<^verbatim>\<open>contract.openPosition(market.title, side === 'YES', entryPrice, leverage, { value: collateralAmount })\<close>.
\<close>

record openPosition_call =
  call_marketId :: string
  call_isLongYes :: bool
  call_entryPrice :: int
  call_leverage :: rat
  call_value :: int

datatype trade_outcome = LoginCalled | NoWalletAlert | TradeFailed trade_error | OpenPosition openPosition_call

text \<open>
  \<^verbatim>\<open>handleTrade\<close> up to the call of \<open>openPosition\<close>: the two guards, the setup of chain,
  provider, signer and contract (\<open>setup_resolves\<close>), the collateral and the entry price
  \<^verbatim>\<open>Math.floor(side === 'YES' ? yesPrice : noPrice)\<close>. A throw ends in the \<open>catch\<close> block.
\<close>

definition handleTrade ::
  "(string \<Rightarrow> number) \<Rightarrow> bool \<Rightarrow> bool \<Rightarrow> string list \<Rightarrow> trade_input \<Rightarrow> trade_outcome" where
  "handleTrade parseFloat setup_resolves authenticated ws inp =
     (if \<not> authenticated then LoginCalled
      else case ws of
        [] \<Rightarrow> NoWalletAlert
      | wallet # _ \<Rightarrow>
          (if \<not> setup_resolves then TradeFailed SetupFailed
           else case collateralAmount parseFloat inp of
             Inl e \<Rightarrow> TradeFailed e
           | Inr v \<Rightarrow>
               OpenPosition
                 \<lparr>call_marketId = title (trade_market inp),
                  call_isLongYes = (trade_side inp = YES),
                  call_entryPrice =
                    \<lfloor>if trade_side inp = YES then trade_yesPrice inp else trade_noPrice inp\<rfloor>,
                  call_leverage = trade_leverage inp,
                  call_value = v\<rparr>))"

section \<open>The monitoring agent\<close>

text \<open>
  Modelled from the spec: the unrealized PnL that the backend agent computes for a
  position against an oracle price. The agent (\<open>backend/agent.py\<close>) is not among the
  sources; the spec gives \<open>PnL = (currentPrice - entryPrice)/100 * collateral * leverage\<close>.
\<close>

definition agent_pnl :: "contract_position \<Rightarrow> rat \<Rightarrow> rat" where
  "agent_pnl pos oraclePrice =
     ((oraclePrice - of_nat (pos_entryPrice pos)) / 100) * formatUnits6 (pos_collateral pos)
       * of_nat (pos_leverage pos)"

text \<open>
  Modelled from the spec: the fixed loss threshold of the agent, which is missing from
  the sources: a position is to be settled when its PnL is below -80% of its collateral.
\<close>

definition breaches_threshold :: "contract_position \<Rightarrow> rat \<Rightarrow> bool" where
  "breaches_threshold pos oraclePrice =
     (agent_pnl pos oraclePrice < - (80 / 100) * formatUnits6 (pos_collateral pos))"

text \<open>
  Modelled from the spec: the one call the agent makes, \<open>settlePosition(positionId)\<close> of
  the contract (\<^verbatim>\<open>CONTRACT_ABI\<close>); the agent is missing from the sources.
\<close>

datatype agent_call = SettlePosition nat

text \<open>
  Modelled from the spec: the positions that the agent watches, the open leveraged ones
  (the agent is missing from the sources).
\<close>

definition watched :: "contract_position \<Rightarrow> bool" where
  "watched pos = (pos_isOpen pos \<and> pos_leverage pos > 1)"

text \<open>
  Modelled from the spec: one polling pass of the agent, which is missing from the
  sources. It goes through the positions, given with their ids, and calls
  \<open>settlePosition\<close> for each watched one whose threshold is breached at the oracle price
  \<open>price_of\<close> for it.
\<close>

fun monitor_pass ::
  "(contract_position \<Rightarrow> rat) \<Rightarrow> (nat \<times> contract_position) list \<Rightarrow> agent_call list" where
  "monitor_pass price_of [] = []"
| "monitor_pass price_of ((i, pos) # rest) =
     (if watched pos \<and> breaches_threshold pos (price_of pos)
      then SettlePosition i # monitor_pass price_of rest
      else monitor_pass price_of rest)"

section \<open>Sample inputs\<close>

text \<open>
  Concrete tuples, pages and environments on which the theorems below are run: a spot and
  a leveraged position of ten USDC on the first market, entered at 50, a tuple on
  another market, a chain that holds the first two under the ids 1 and 2, and pages of a
  wallet that owns them.
\<close>

definition tuple_spot :: contract_position where
  "tuple_spot =
     \<lparr>pos_marketId = ''Will SpaceX Starship reach orbit in 2025?'', pos_trader = ''0xAb'',
      pos_isLongYes = True, pos_entryPrice = 50, pos_collateral = 10000000, pos_leverage = 1,
      pos_openedAt = 1700000000, pos_isOpen = True\<rparr>"

definition tuple_leveraged :: contract_position where
  "tuple_leveraged = tuple_spot\<lparr>pos_leverage := 3\<rparr>"


definition chain_two :: chain where
  "chain_two =
     \<lparr>nextPositionId = Some 3,
      getPosition = (\<lambda>i. if i = 1 then Some tuple_spot
                          else if i = 2 then Some tuple_leveraged else None)\<rparr>"

definition no_stats :: "nat \<Rightarrow> MarketStats option" where
  "no_stats k = None"

definition page_idle :: page_state where
  "page_idle =
     \<lparr>wallets = [''0xaB''], positions = [toPosition 1 tuple_spot, toPosition 2 tuple_leveraged],
      closingPositionId = None, marketStats = no_stats, notification = None,
      fetchesStarted = 0\<rparr>"

definition page_busy :: page_state where
  "page_busy = page_idle\<lparr>closingPositionId := Some 2\<rparr>"

definition page_no_wallet :: page_state where
  "page_no_wallet = page_idle\<lparr>wallets := []\<rparr>"

definition all_resolve :: "close_call \<Rightarrow> bool" where
  "all_resolve c = True"

definition confirmation_throws :: "close_call \<Rightarrow> bool" where
  "confirmation_throws c = (c \<noteq> WaitConfirmation)"

definition price_20 :: "contract_position \<Rightarrow> rat" where
  "price_20 pos = 20"

text \<open>
  A stand-in for \<^verbatim>\<open>parseFloat\<close> that agrees with it on the two inputs used below,
  \<open>"abc"\<close> and \<open>"2.5"\<close>.
\<close>

definition parseFloat_sample :: "string \<Rightarrow> number" where
  "parseFloat_sample str = (if str = ''2.5'' then Finite (5 / 2) else NaN)"

definition trade_spot :: trade_input where
  "trade_spot =
     \<lparr>trade_side = YES, tradeAmount = ''abc'', trade_leverage = 1, trade_market = hd MARKETS,
      trade_yesPrice = 78, trade_noPrice = 22\<rparr>"



definition call_spot :: openPosition_call where
  "call_spot =
     \<lparr>call_marketId = ''Will SpaceX Starship reach orbit in 2025?'', call_isLongYes = True,
      call_entryPrice = 78, call_leverage = 1, call_value = 10000000\<rparr>"

section \<open>The price formula\<close>

lemma total_sum: "total_shares y n l = l + y + n"
  by (simp add: total_shares_def yesShares_def noShares_def)

lemma calculateAMMPrices_defined:
  "total_shares y n l \<noteq> 0 \<Longrightarrow>
   calculateAMMPrices y n l =
     Some \<lparr>amm_yesPrice = noShares n l / total_shares y n l * 100,
           amm_noPrice = yesShares y l / total_shares y n l * 100\<rparr>"
  by (simp add: calculateAMMPrices_def num_div_def)

lemma calculateAMMPrices_undefined:
  "total_shares y n l = 0 \<Longrightarrow> calculateAMMPrices y n l = None"
  by (simp add: calculateAMMPrices_def num_div_def)

lemma total_nonzero: "0 \<le> y \<Longrightarrow> 0 \<le> n \<Longrightarrow> 0 < l \<Longrightarrow> total_shares y n l \<noteq> 0"
  by (simp add: total_sum)

lemma prices_sum:
  assumes "total_shares y n l \<noteq> 0"
  shows "noShares n l / total_shares y n l * 100 + yesShares y l / total_shares y n l * 100 = 100"
proof -
  have "noShares n l / total_shares y n l + yesShares y l / total_shares y n l
        = (noShares n l + yesShares y l) / total_shares y n l"
    by (simp add: add_divide_distrib)
  also have "\<dots> = 1"
    using assms by (simp add: total_shares_def add.commute)
  finally have "(noShares n l / total_shares y n l + yesShares y l / total_shares y n l) * 100 = 100"
    by simp
  then show ?thesis by (simp add: distrib_right)
qed

text \<open>
  C3. With the default initial liquidity 1000 the function returns, for all volumes,
  the price of each side as the shares of the opposite side over all shares, times 100:
  \<open>yesPrice = ((1000/2 + noVolume) / (1000 + yesVolume + noVolume)) * 100\<close> and
  \<open>noPrice = ((1000/2 + yesVolume) / (1000 + yesVolume + noVolume)) * 100\<close>, the
  initial liquidity being split evenly between the sides. Where the denominator of the
  formula is zero, function and formula alike give no finite number.
\<close>

theorem calculateAMMPrices_formula:
  "calculateAMMPrices yv nv defaultInitialLiquidity =
     (if 1000 + yv + nv = 0 then None
      else Some \<lparr>amm_yesPrice = ((1000 / 2 + nv) / (1000 + yv + nv)) * 100,
                 amm_noPrice = ((1000 / 2 + yv) / (1000 + yv + nv)) * 100\<rparr>)"
  by (simp add: calculateAMMPrices_def defaultInitialLiquidity_def total_sum
      yesShares_def noShares_def num_div_def)

theorem calculateAMMPrices_formula_witness:
  "calculateAMMPrices 20 0 defaultInitialLiquidity =
     Some \<lparr>amm_yesPrice = 2500 / 51, amm_noPrice = 2600 / 51\<rparr>"
  using calculateAMMPrices_formula [of 20 0] by simp

lemma calculateAMMPrices_sum_defined:
  "total_shares yv nv l \<noteq> 0 \<Longrightarrow>
   \<exists>pr. calculateAMMPrices yv nv l = Some pr \<and> amm_yesPrice pr + amm_noPrice pr = 100"
  using calculateAMMPrices_defined [of yv nv l] prices_sum [of yv nv l] by simp

text \<open>
  C4. The pricing is constant-sum: for every positive initial liquidity and all volumes
  the function can receive, the two prices it returns sum to exactly 100, over exact
  rational arithmetic. The volumes are sums of collateral and so not negative: the one
  call of the function passes the sums that \<open>market_volumes\<close> builds from 0.
\<close>

theorem calculateAMMPrices_sum:
  assumes "0 < l" and "0 \<le> yv" and "0 \<le> nv"
  shows "\<exists>pr. calculateAMMPrices yv nv l = Some pr \<and> amm_yesPrice pr + amm_noPrice pr = 100"
proof -
  from assms have "total_shares yv nv l \<noteq> 0"
    by (simp add: total_sum)
  then show ?thesis by (rule calculateAMMPrices_sum_defined)
qed

theorem calculateAMMPrices_sum_witness:
  "(0::rat) < 1000 \<and> (0::rat) \<le> 10 \<and> (0::rat) \<le> 0 \<and>
   (\<exists>pr. calculateAMMPrices 10 0 1000 = Some pr \<and> amm_yesPrice pr + amm_noPrice pr = 100)"
  using calculateAMMPrices_sum [of 1000 10 0] by simp

section \<open>Rounding to doubles\<close>

lemma pow2_pos: "0 < pow2 k"
  by (simp add: pow2_def zero_less_power_int)

lemma pow2_mult: "pow2 a * pow2 b = pow2 (a + b)"
  by (simp add: pow2_def power_int_add)

lemma pow2_nat: "pow2 (int n) = 2 ^ n"
  by (simp add: pow2_def)

lemma pow2_neg: "pow2 (- k) = 1 / pow2 k"
  by (simp add: pow2_def power_int_minus_divide)

lemma pow2_less_iff: "pow2 a < pow2 b \<longleftrightarrow> a < b"
  unfolding pow2_def
  by (meson linorder_not_less one_less_numeral_iff power_int_increasing
      power_int_strict_increasing semiring_norm(76) less_imp_le)

lemma pow2_le_iff: "pow2 a \<le> pow2 b \<longleftrightarrow> a \<le> b"
  using pow2_less_iff [of b a] by (simp add: not_less [symmetric])

lemma exponent_ge1:
  assumes "1 \<le> x"
  shows "pow2 (exponent x) \<le> x" and "x < pow2 (exponent x + 1)"
proof -
  let ?n = "\<lfloor>x\<rfloor>"
  have n: "0 < ?n" using assms by simp
  have e: "exponent x = bitlen ?n - 1"
    using assms by (simp add: exponent_def)
  have b1: "1 \<le> bitlen ?n"
    using n bitlen_ge_iff_power [of 1 ?n] by simp
  from bitlen_bounds [OF n]
  have lo: "(2::int) ^ nat (bitlen ?n - 1) \<le> ?n" and hi: "?n < 2 ^ nat (bitlen ?n)"
    by simp_all
  have "pow2 (bitlen ?n - 1) = of_int (2 ^ nat (bitlen ?n - 1))"
    using b1 pow2_nat [of "nat (bitlen ?n - 1)"] by simp
  also have "\<dots> \<le> of_int ?n"
    using lo by (simp only: of_int_le_iff)
  also have "\<dots> \<le> x" by simp
  finally show "pow2 (exponent x) \<le> x" by (simp add: e)
  have "?n + 1 \<le> 2 ^ nat (bitlen ?n)" using hi by simp
  then have "(of_int (?n + 1) :: rat) \<le> of_int (2 ^ nat (bitlen ?n))"
    by (simp only: of_int_le_iff)
  moreover have "x < of_int (?n + 1)" by linarith
  ultimately have "x < of_int (2 ^ nat (bitlen ?n))" by linarith
  also have "\<dots> = pow2 (bitlen ?n)"
    using b1 pow2_nat [of "nat (bitlen ?n)"] by simp
  finally show "x < pow2 (exponent x + 1)" by (simp add: e)
qed

lemma exponent_lt1:
  assumes "0 < x" "x < 1"
  shows "pow2 (exponent x) \<le> x" and "x < pow2 (exponent x + 1)"
proof -
  let ?c = "\<lceil>1 / x\<rceil>"
  let ?m = "?c - 1"
  let ?j = "bitlen ?m"
  have inv: "1 < 1 / x" using assms by simp
  then have c: "2 \<le> ?c" by linarith
  then have m: "0 < ?m" by simp
  have e: "exponent x = - ?j"
    using assms by (simp add: exponent_def)
  have j1: "1 \<le> ?j"
    using m bitlen_ge_iff_power [of 1 ?m] by simp
  from bitlen_bounds [OF m]
  have lo: "(2::int) ^ nat (?j - 1) \<le> ?m" and hi: "?m < 2 ^ nat ?j"
    by simp_all
  have p: "(0::rat) < 2 ^ nat ?j" "(0::rat) < 2 ^ nat (?j - 1)" by simp_all
  have "?c \<le> 2 ^ nat ?j" using hi by simp
  then have "(of_int ?c :: rat) \<le> of_int (2 ^ nat ?j)" by (simp only: of_int_le_iff)
  then have "(of_int ?c :: rat) \<le> 2 ^ nat ?j" by simp
  moreover have "1 / x \<le> of_int ?c" by (rule le_of_int_ceiling)
  ultimately have "1 / x \<le> 2 ^ nat ?j" by (rule order_trans [rotated])
  then have "1 \<le> 2 ^ nat ?j * x"
    using assms(1) by (simp add: field_simps)
  then have "1 / 2 ^ nat ?j \<le> x"
    using p(1) by (simp add: field_simps)
  moreover have "pow2 (- ?j) = 1 / 2 ^ nat ?j"
    using j1 pow2_nat [of "nat ?j"] by (simp add: pow2_neg)
  ultimately show "pow2 (exponent x) \<le> x" by (simp add: e)
  have "(of_int (2 ^ nat (?j - 1)) :: rat) \<le> of_int ?m"
    using lo by (simp only: of_int_le_iff)
  then have "(2::rat) ^ nat (?j - 1) \<le> of_int ?m" by simp
  moreover have "of_int ?m < 1 / x" by linarith
  ultimately have "2 ^ nat (?j - 1) < 1 / x" by (rule le_less_trans)
  then have "2 ^ nat (?j - 1) * x < 1"
    using assms(1) by (simp add: field_simps)
  then have "x < 1 / 2 ^ nat (?j - 1)"
    using p(2) by (simp add: field_simps)
  moreover have "pow2 (- ?j + 1) = 1 / 2 ^ nat (?j - 1)"
  proof -
    have "- ?j + 1 = - (?j - 1)" by simp
    then have "pow2 (- ?j + 1) = 1 / pow2 (?j - 1)"
      by (simp only: pow2_neg)
    then show ?thesis using j1 pow2_nat [of "nat (?j - 1)"] by simp
  qed
  ultimately show "x < pow2 (exponent x + 1)" by (simp add: e)
qed

lemma exponent_bounds:
  assumes "0 < x"
  shows "pow2 (exponent x) \<le> x" and "x < pow2 (exponent x + 1)"
  using assms exponent_ge1 [of x] exponent_lt1 [of x] by (cases "1 \<le> x"; simp)+

lemma exponent_unique:
  assumes "0 < x" "pow2 k \<le> x" "x < pow2 (k + 1)"
  shows "exponent x = k"
proof -
  from exponent_bounds [OF assms(1)] assms
  have "pow2 (exponent x) < pow2 (k + 1)" "pow2 k < pow2 (exponent x + 1)"
    by linarith+
  then show ?thesis by (simp add: pow2_less_iff)
qed

lemma exponent_mono:
  assumes "0 < a" "a \<le> x"
  shows "exponent a \<le> exponent x"
proof -
  have "0 < x" using assms by simp
  from exponent_bounds [OF assms(1)] exponent_bounds [OF this] assms
  have "pow2 (exponent a) < pow2 (exponent x + 1)" by linarith
  then show ?thesis by (simp add: pow2_less_iff)
qed

lemma grid_52: "of_int (2 ^ 52) * pow2 (k - 52) = pow2 k"
proof -
  have "of_int (2 ^ 52) * pow2 (k - 52) = pow2 (int 52) * pow2 (k - 52)"
    by (simp only: pow2_nat) simp
  also have "\<dots> = pow2 k"
    by (simp only: pow2_mult) simp
  finally show ?thesis .
qed

lemma grid_53: "of_int (2 ^ 53) * pow2 (k - 52) = pow2 (k + 1)"
proof -
  have "of_int (2 ^ 53) * pow2 (k - 52) = pow2 (int 53) * pow2 (k - 52)"
    by (simp only: pow2_nat) simp
  also have "\<dots> = pow2 (k + 1)"
    by (simp only: pow2_mult) (simp add: algebra_simps)
  finally show ?thesis .
qed

lemma quantum_pos: "0 < quantum x"
  by (simp add: quantum_def pow2_pos)

lemma round_even_floor: "\<lfloor>r\<rfloor> \<le> round_even r" "round_even r \<le> \<lfloor>r\<rfloor> + 1"
  by (simp_all add: round_even_def)

lemma round_even_of_int: "round_even (of_int k) = k"
  by (simp add: round_even_def)

lemma round_even_ge: "of_int k \<le> r \<Longrightarrow> k \<le> round_even r"
  using round_even_floor(1) [of r] le_floor_iff [of k r] by linarith

lemma round_even_le:
  assumes "r \<le> of_int k"
  shows "round_even r \<le> k"
proof (cases "r = of_int k")
  case True
  then show ?thesis by (simp add: round_even_of_int)
next
  case False
  with assms have "r < of_int k" by simp
  then have "\<lfloor>r\<rfloor> < k" by (simp add: floor_less_iff)
  then show ?thesis using round_even_floor(2) [of r] by linarith
qed

lemma nearest_nonneg: "0 \<le> x \<Longrightarrow> 0 \<le> nearest x"
proof -
  assume "0 \<le> x"
  then have "of_int 0 \<le> x / quantum x" using quantum_pos [of x] by simp
  then have "0 \<le> round_even (x / quantum x)" by (rule round_even_ge)
  then show ?thesis using quantum_pos [of x] by (simp add: nearest_def)
qed

lemma nearest_ge_grid:
  assumes "of_int m * quantum x \<le> x"
  shows "of_int m * quantum x \<le> nearest x"
proof -
  have "of_int m \<le> x / quantum x"
    using assms quantum_pos [of x] by (simp add: field_simps)
  then have "m \<le> round_even (x / quantum x)" by (rule round_even_ge)
  then have "(of_int m :: rat) \<le> of_int (round_even (x / quantum x))" by simp
  then show ?thesis
    using quantum_pos [of x] by (simp add: nearest_def)
qed

lemma nearest_le_grid:
  assumes "x \<le> of_int m * quantum x"
  shows "nearest x \<le> of_int m * quantum x"
proof -
  have "x / quantum x \<le> of_int m"
    using assms quantum_pos [of x] by (simp add: field_simps)
  then have "round_even (x / quantum x) \<le> m" by (rule round_even_le)
  then have "(of_int (round_even (x / quantum x)) :: rat) \<le> of_int m" by simp
  then show ?thesis
    using quantum_pos [of x] by (simp add: nearest_def)
qed

lemma nearest_ge_pow2:
  assumes "0 < x" "- 1022 \<le> exponent x"
  shows "pow2 (exponent x) \<le> nearest x"
proof -
  have q: "quantum x = pow2 (exponent x - 52)"
    using assms(2) by (simp add: quantum_def max_def)
  have g: "of_int (2 ^ 52) * quantum x = pow2 (exponent x)"
    by (simp only: q grid_52)
  then have "of_int (2 ^ 52) * quantum x \<le> x"
    using exponent_bounds(1) [OF assms(1)] by simp
  then have "of_int (2 ^ 52) * quantum x \<le> nearest x" by (rule nearest_ge_grid)
  then show ?thesis by (simp only: g)
qed

lemma nearest_le_pow2:
  assumes "0 < x"
  shows "nearest x \<le> pow2 (max (exponent x) (- 1022) + 1)"
proof -
  let ?M = "max (exponent x) (- 1022)"
  have g: "of_int (2 ^ 53) * quantum x = pow2 (?M + 1)"
    by (simp only: quantum_def grid_53)
  have "x < pow2 (exponent x + 1)" by (rule exponent_bounds(2) [OF assms])
  also have "\<dots> \<le> pow2 (?M + 1)" by (simp add: pow2_le_iff)
  finally have "x \<le> of_int (2 ^ 53) * quantum x" by (simp only: g)
  then have "nearest x \<le> of_int (2 ^ 53) * quantum x" by (rule nearest_le_grid)
  then show ?thesis by (simp only: g)
qed

lemma nearest_ge_representable:
  assumes "0 < a" "representable a" "a \<le> x"
  shows "a \<le> nearest x"
proof -
  have x: "0 < x" using assms by simp
  have ee: "exponent a \<le> exponent x" by (rule exponent_mono [OF assms(1,3)])
  obtain m where m: "a = of_int m * quantum a"
    using assms(2) by (auto simp: representable_def)
  show ?thesis
  proof (cases "max (exponent a) (- 1022) = max (exponent x) (- 1022)")
    case True
    then have "quantum a = quantum x" by (simp add: quantum_def)
    with m have a: "a = of_int m * quantum x" by simp
    with assms(3) have "of_int m * quantum x \<le> x" by simp
    then have "of_int m * quantum x \<le> nearest x" by (rule nearest_ge_grid)
    with a show ?thesis by simp
  next
    case False
    with ee have norm: "- 1022 \<le> exponent x" and lt: "exponent a + 1 \<le> exponent x"
      by (auto simp: max_def split: if_splits)
    have "a < pow2 (exponent a + 1)" by (rule exponent_bounds(2) [OF assms(1)])
    also have "\<dots> \<le> pow2 (exponent x)" using lt by (simp only: pow2_le_iff)
    also have "\<dots> \<le> nearest x" by (rule nearest_ge_pow2 [OF x norm])
    finally show ?thesis by simp
  qed
qed

lemma nearest_le_representable:
  assumes "0 < x" "representable a" "x \<le> a"
  shows "nearest x \<le> a"
proof -
  have a: "0 < a" using assms by simp
  have ee: "exponent x \<le> exponent a" by (rule exponent_mono [OF assms(1,3)])
  obtain m where m: "a = of_int m * quantum a"
    using assms(2) by (auto simp: representable_def)
  show ?thesis
  proof (cases "max (exponent a) (- 1022) = max (exponent x) (- 1022)")
    case True
    then have "quantum a = quantum x" by (simp add: quantum_def)
    with m have a': "a = of_int m * quantum x" by simp
    with assms(3) have "x \<le> of_int m * quantum x" by simp
    then have "nearest x \<le> of_int m * quantum x" by (rule nearest_le_grid)
    with a' show ?thesis by simp
  next
    case False
    with ee have lt: "max (exponent x) (- 1022) + 1 \<le> exponent a"
      by (auto simp: max_def split: if_splits)
    have "nearest x \<le> pow2 (max (exponent x) (- 1022) + 1)"
      by (rule nearest_le_pow2 [OF assms(1)])
    also have "\<dots> \<le> pow2 (exponent a)" using lt by (simp only: pow2_le_iff)
    also have "\<dots> \<le> a" by (rule exponent_bounds(1) [OF a])
    finally show ?thesis .
  qed
qed

lemma representable_0: "representable 0"
  by (simp add: representable_def)

lemma representable_grid:
  assumes "0 < y" "y = of_int m * pow2 (M - 52)" "max (exponent y) (- 1022) = M"
  shows "representable y"
  unfolding representable_def quantum_def using assms by auto

lemma exponent_pow2: "exponent (pow2 k) = k"
  by (rule exponent_unique) (simp_all add: pow2_pos pow2_less_iff)

lemma representable_pow2:
  assumes "- 1022 \<le> k"
  shows "representable (pow2 k)"
proof (rule representable_grid [of _ "2 ^ 52" k])
  show "0 < pow2 k" by (rule pow2_pos)
  show "pow2 k = of_int (2 ^ 52) * pow2 (k - 52)" by (simp only: grid_52)
  show "max (exponent (pow2 k)) (- 1022) = k" using assms by (simp add: exponent_pow2)
qed

lemma subnormal_exponent:
  assumes "0 < y" "y < pow2 (- 1022)"
  shows "max (exponent y) (- 1022) = - 1022"
proof -
  have "pow2 (exponent y) < pow2 (- 1022)"
    using exponent_bounds(1) [OF assms(1)] assms(2) by linarith
  then have "exponent y < - 1022" by (simp only: pow2_less_iff)
  then show ?thesis by simp
qed

lemma representable_nearest:
  assumes "0 < x"
  shows "representable (nearest x)"
proof -
  let ?M = "max (exponent x) (- 1022)"
  let ?u = "pow2 (?M - 52)"
  let ?m = "round_even (x / quantum x)"
  have u: "quantum x = ?u" by (simp add: quantum_def)
  have y: "nearest x = of_int ?m * ?u" by (simp add: nearest_def u)
  have upos: "0 < ?u" by (rule pow2_pos)
  have top: "of_int (2 ^ 53) * ?u = pow2 (?M + 1)"
    by (rule grid_53)
  have m0: "0 \<le> ?m"
    using nearest_nonneg [of x] assms upos by (simp add: y zero_le_mult_iff)
  have "nearest x \<le> pow2 (?M + 1)" by (rule nearest_le_pow2 [OF assms])
  then have "of_int ?m * ?u \<le> of_int (2 ^ 53) * ?u" by (simp only: y top)
  then have m53: "?m \<le> 2 ^ 53" using upos by simp
  consider "?m = 0" | "?m = 2 ^ 53" | "0 < ?m" "?m < 2 ^ 53"
    using m0 m53 by linarith
  then show ?thesis
  proof cases
    case 1
    then show ?thesis by (simp add: y representable_0)
  next
    case 2
    then have "nearest x = pow2 (?M + 1)" using top by (simp add: y)
    moreover have "representable (pow2 (?M + 1))" by (rule representable_pow2) simp
    ultimately show ?thesis by simp
  next
    case 3
    have ypos: "0 < nearest x" using 3(1) upos by (simp add: y)
    have "(of_int ?m :: rat) < of_int (2 ^ 53)" using 3(2) by (simp only: of_int_less_iff)
    then have "of_int ?m * ?u < of_int (2 ^ 53) * ?u" using upos by simp
    then have yhi: "nearest x < pow2 (?M + 1)" by (simp only: y top)
    show ?thesis
    proof (cases "- 1022 \<le> exponent x")
      case True
      then have M: "?M = exponent x" by simp
      have "pow2 (exponent x) \<le> nearest x" by (rule nearest_ge_pow2 [OF assms True])
      with yhi have "exponent (nearest x) = exponent x"
        by (intro exponent_unique [OF ypos]) (simp_all add: M)
      then have "max (exponent (nearest x)) (- 1022) = ?M" by simp
      with ypos y show ?thesis by (intro representable_grid [of _ ?m ?M]) simp_all
    next
      case False
      then have M: "?M = - 1022" by simp
      show ?thesis
      proof (cases "nearest x < pow2 (- 1022)")
        case True
        then have "max (exponent (nearest x)) (- 1022) = - 1022"
          by (rule subnormal_exponent [OF ypos])
        with ypos y M show ?thesis by (intro representable_grid [of _ ?m ?M]) simp_all
      next
        case nlt: False
        have "x < pow2 (exponent x + 1)" by (rule exponent_bounds(2) [OF assms])
        also have "\<dots> \<le> pow2 (- 1022)"
        proof -
          have "exponent x + 1 \<le> - 1022" using False by linarith
          then show ?thesis by (simp only: pow2_le_iff)
        qed
        finally have "x \<le> pow2 (- 1022)" by simp
        moreover have r: "representable (pow2 (- 1022))" by (rule representable_pow2) simp
        ultimately have "nearest x \<le> pow2 (- 1022)"
          by (intro nearest_le_representable [OF assms])
        with nlt have "nearest x = pow2 (- 1022)" by simp
        with r show ?thesis by simp
      qed
    qed
  qed
qed

lemma pow2_succ: "pow2 (k + 1) = 2 * pow2 k"
  using pow2_mult [of k 1] pow2_nat [of 1] by simp

lemma nearest_representable:
  assumes "0 < a" "representable a"
  shows "nearest a = a"
  using nearest_ge_representable [OF assms order_refl]
    nearest_le_representable [OF assms(1,2) order_refl]
  by simp

lemma representable_int:
  assumes "0 < n" "n < 2 ^ 53"
  shows "representable (of_int n)"
proof -
  let ?x = "of_int n :: rat"
  let ?e = "exponent ?x"
  have x: "0 < ?x" "1 \<le> ?x" using assms(1) by simp_all
  have "pow2 0 < pow2 (?e + 1)"
    using exponent_bounds(2) [OF x(1)] x(2) pow2_nat [of 0] by simp
  then have e0: "0 \<le> ?e" by (simp add: pow2_less_iff)
  have "?x < of_int (2 ^ 53)" using assms(2) by (simp only: of_int_less_iff)
  then have "?x < pow2 53" using pow2_nat [of 53] by simp
  with exponent_bounds(1) [OF x(1)] have "pow2 ?e < pow2 53" by linarith
  then have e52: "?e \<le> 52" by (simp add: pow2_less_iff)
  let ?d = "nat (52 - ?e)"
  have d: "pow2 (52 - ?e) = 2 ^ ?d"
    using e52 pow2_nat [of ?d] by simp
  have "pow2 (?e - 52) = 1 / pow2 (52 - ?e)"
    using pow2_neg [of "52 - ?e"] by simp
  then have "of_int (n * 2 ^ ?d) * pow2 (?e - 52) = ?x"
    by (simp add: d)
  then have g: "?x = of_int (n * 2 ^ ?d) * pow2 (?e - 52)" by simp
  show ?thesis
    by (rule representable_grid [OF x(1) g]) (use e0 in simp)
qed

lemma representable_consts:
  "representable 1" "representable 100" "representable 500" "representable 1000"
  using representable_int [of 1] representable_int [of 100] representable_int [of 500]
    representable_int [of 1000]
  by simp_all

lemma to_double_Some:
  assumes "0 \<le> x" "nearest x \<le> pow2 k" "k < 1024"
  shows "to_double x = Some (nearest x)"
proof -
  have "pow2 k < pow2 1024" using assms(3) by (simp only: pow2_less_iff)
  with assms(2) have "nearest x < pow2 1024" by linarith
  then show ?thesis
    using nearest_nonneg [OF assms(1)] by (simp add: to_double_def)
qed

lemma half_liquidity: "dbl_div defaultInitialLiquidity 2 = Some 500"
proof -
  have n: "nearest 500 = 500"
    by (rule nearest_representable) (simp_all add: representable_consts)
  have "(500::rat) \<le> pow2 9" using pow2_nat [of 9] by simp
  with n have "to_double 500 = Some (nearest 500)"
    by (intro to_double_Some [of _ 9]) simp_all
  with n show ?thesis by (simp add: dbl_div_def defaultInitialLiquidity_def)
qed

lemma pow2_1000_ge: "500 \<le> pow2 1000"
proof -
  have "(500::rat) \<le> pow2 9" using pow2_nat [of 9] by simp
  also have "\<dots> \<le> pow2 1000" by (simp add: pow2_le_iff)
  finally show ?thesis .
qed

lemma shares_double:
  assumes "0 \<le> v" "v \<le> pow2 1000"
  shows "dbl_add 500 v = Some (nearest (500 + v))"
    and "500 \<le> nearest (500 + v)"
    and "nearest (500 + v) \<le> pow2 1001"
    and "representable (nearest (500 + v))"
proof -
  have pos: "0 < 500 + v" using assms(1) by simp
  show lo: "500 \<le> nearest (500 + v)"
    by (rule nearest_ge_representable) (use assms(1) in \<open>simp_all add: representable_consts\<close>)
  have "500 + v \<le> pow2 1000 + pow2 1000" using assms(2) pow2_1000_ge by linarith
  also have "\<dots> = pow2 1001" using pow2_succ [of 1000] by simp
  finally have "500 + v \<le> pow2 1001" .
  then show hi: "nearest (500 + v) \<le> pow2 1001"
    by (intro nearest_le_representable [OF pos] representable_pow2) simp_all
  show "dbl_add 500 v = Some (nearest (500 + v))"
    unfolding dbl_add_def using pos hi by (intro to_double_Some [of _ 1001]) simp_all
  show "representable (nearest (500 + v))" by (rule representable_nearest [OF pos])
qed

lemma total_of_shares:
  assumes "500 \<le> a" "500 \<le> b" "a \<le> pow2 1001" "b \<le> pow2 1001"
    "representable a" "representable b"
  shows "dbl_add a b = Some (nearest (a + b))"
    and "1000 \<le> nearest (a + b)"
    and "a \<le> nearest (a + b)"
    and "b \<le> nearest (a + b)"
    and "nearest (a + b) \<le> pow2 1002"
proof -
  have pos: "0 < a + b" "0 < a" "0 < b" using assms(1,2) by simp_all
  show "1000 \<le> nearest (a + b)"
    by (rule nearest_ge_representable) (use assms(1,2) in \<open>simp_all add: representable_consts\<close>)
  show "a \<le> nearest (a + b)"
    by (rule nearest_ge_representable [OF pos(2) assms(5)]) (use assms(2) in simp)
  show "b \<le> nearest (a + b)"
    by (rule nearest_ge_representable [OF pos(3) assms(6)]) (use assms(1) in simp)
  have "a + b \<le> pow2 1001 + pow2 1001" using assms(3,4) by linarith
  also have "\<dots> = pow2 1002" using pow2_succ [of 1001] by simp
  finally have "a + b \<le> pow2 1002" .
  then show hi: "nearest (a + b) \<le> pow2 1002"
    by (intro nearest_le_representable [OF pos(1)] representable_pow2) simp_all
  show "dbl_add a b = Some (nearest (a + b))"
    unfolding dbl_add_def using pos(1) hi by (intro to_double_Some [of _ 1002]) simp_all
qed

lemma price_of_shares:
  assumes "500 \<le> a" "a \<le> t" "t \<le> pow2 1002"
  shows "dbl_div a t = Some (nearest (a / t))"
    and "dbl_mul (nearest (a / t)) 100 = Some (nearest (nearest (a / t) * 100))"
    and "0 < nearest (nearest (a / t) * 100)"
    and "nearest (nearest (a / t) * 100) \<le> 100"
proof -
  have t: "0 < t" "t \<noteq> 0" using assms(1,2) by simp_all
  have q: "0 < a / t" "a / t \<le> 1" using assms(1,2) t by simp_all
  have "pow2 (- 994) * pow2 1002 = pow2 8" by (simp only: pow2_mult) simp
  also have "\<dots> \<le> a" using assms(1) pow2_nat [of 8] by simp
  finally have "pow2 (- 994) * t \<le> a"
    using assms(3) pow2_pos [of "- 994"] mult_left_mono [of t "pow2 1002" "pow2 (- 994)"]
    by linarith
  then have low: "pow2 (- 994) \<le> a / t" using t(1) by (simp add: field_simps)
  have r: "representable (pow2 (- 994))" by (rule representable_pow2) simp
  have qlo: "pow2 (- 994) \<le> nearest (a / t)"
    by (rule nearest_ge_representable [OF pow2_pos r low])
  have qhi: "nearest (a / t) \<le> 1"
    by (rule nearest_le_representable [OF q(1) representable_consts(1) q(2)])
  have one: "(1::rat) \<le> pow2 0" using pow2_nat [of 0] by simp
  show "dbl_div a t = Some (nearest (a / t))"
    unfolding dbl_div_def using t(2) q(1) qhi one
    by (simp add: to_double_Some [of _ 0])
  let ?p = "nearest (a / t) * 100"
  have qpos: "0 < nearest (a / t)" using qlo pow2_pos [of "- 994"] by linarith
  then have ppos: "0 < ?p" by simp
  have plo: "pow2 (- 994) \<le> ?p" using qlo qpos by linarith
  have phi: "?p \<le> 100" using qhi by simp
  have "pow2 (- 994) \<le> nearest ?p"
    by (rule nearest_ge_representable [OF pow2_pos r plo])
  then show "0 < nearest ?p" using pow2_pos [of "- 994"] by linarith
  show hi: "nearest ?p \<le> 100"
    by (rule nearest_le_representable [OF ppos representable_consts(2) phi])
  have "(100::rat) \<le> pow2 7" using pow2_nat [of 7] by simp
  with hi have "nearest ?p \<le> pow2 7" by linarith
  then show "dbl_mul (nearest (a / t)) 100 = Some (nearest ?p)"
    unfolding dbl_mul_def using ppos by (intro to_double_Some [of _ 7]) simp_all
qed

lemma calculateAMMPrices_double_eq:
  assumes "0 \<le> yv" "yv \<le> pow2 1000" "0 \<le> nv" "nv \<le> pow2 1000"
  shows "total_double yv nv defaultInitialLiquidity =
           Some (nearest (nearest (500 + yv) + nearest (500 + nv)))"
    and "calculateAMMPrices_double yv nv defaultInitialLiquidity =
           Some \<lparr>amm_yesPrice =
                   nearest (nearest (nearest (500 + nv)
                     / nearest (nearest (500 + yv) + nearest (500 + nv))) * 100),
                 amm_noPrice =
                   nearest (nearest (nearest (500 + yv)
                     / nearest (nearest (500 + yv) + nearest (500 + nv))) * 100)\<rparr>"
proof -
  let ?ys = "nearest (500 + yv)" and ?ns = "nearest (500 + nv)"
  let ?t = "nearest (?ys + ?ns)"
  note ys = shares_double [OF assms(1,2)]
  note ns = shares_double [OF assms(3,4)]
  note t = total_of_shares [OF ys(2) ns(2) ys(3) ns(3) ys(4) ns(4)]
  note py = price_of_shares [OF ns(2) t(4) t(5)]
  note pn = price_of_shares [OF ys(2) t(3) t(5)]
  have s: "yesShares_double yv defaultInitialLiquidity = Some ?ys"
    "noShares_double nv defaultInitialLiquidity = Some ?ns"
    by (simp_all add: yesShares_double_def noShares_double_def half_liquidity ys(1) ns(1))
  show tot: "total_double yv nv defaultInitialLiquidity = Some ?t"
    by (simp add: total_double_def s t(1))
  show "calculateAMMPrices_double yv nv defaultInitialLiquidity =
      Some \<lparr>amm_yesPrice = nearest (nearest (?ns / ?t) * 100),
            amm_noPrice = nearest (nearest (?ys / ?t) * 100)\<rparr>"
    by (simp add: calculateAMMPrices_double_def s tot py(1,2) pn(1,2))
qed

lemma double_prices_bounds:
  assumes "0 \<le> yv" "yv \<le> pow2 1000" "0 \<le> nv" "nv \<le> pow2 1000"
  shows "\<exists>t pr. total_double yv nv defaultInitialLiquidity = Some t \<and> 1000 \<le> t \<and> 0 < t \<and>
           calculateAMMPrices_double yv nv defaultInitialLiquidity = Some pr \<and>
           0 < amm_yesPrice pr \<and> amm_yesPrice pr \<le> 100 \<and>
           0 < amm_noPrice pr \<and> amm_noPrice pr \<le> 100"
proof -
  let ?ys = "nearest (500 + yv)" and ?ns = "nearest (500 + nv)"
  let ?t = "nearest (?ys + ?ns)"
  note ys = shares_double [OF assms(1,2)]
  note ns = shares_double [OF assms(3,4)]
  note t = total_of_shares [OF ys(2) ns(2) ys(3) ns(3) ys(4) ns(4)]
  note py = price_of_shares [OF ns(2) t(4) t(5)]
  note pn = price_of_shares [OF ys(2) t(3) t(5)]
  note eq = calculateAMMPrices_double_eq [OF assms]
  have "0 < ?t" using t(2) by linarith
  with eq t(2) py(3,4) pn(3,4) show ?thesis by simp
qed

lemma round_even_down:
  assumes "of_int m \<le> r" "r < of_int m + 1 / 2"
  shows "round_even r = m"
proof -
  have "\<lfloor>r\<rfloor> = m" using assms by (intro floor_unique) simp_all
  then show ?thesis using assms(2) by (simp add: round_even_def)
qed

lemma nearest_absorbs_500: "nearest 10000000000000000500 = 10000000000000000000"
proof -
  let ?x = "10000000000000000500 :: rat"
  have e: "exponent ?x = 63"
    using pow2_nat [of 63] pow2_nat [of 64] by (intro exponent_unique) simp_all
  have q: "quantum ?x = 2048"
    using pow2_nat [of 11] by (simp add: quantum_def e)
  have "round_even (?x / 2048) = 4882812500000000"
    by (rule round_even_down) simp_all
  then show ?thesis by (simp add: nearest_def q)
qed

lemma big_volume_in_range: "(10000000000000000000::rat) \<le> pow2 1000"
proof -
  have "(10000000000000000000::rat) \<le> pow2 64" using pow2_nat [of 64] by simp
  also have "\<dots> \<le> pow2 1000" by (simp add: pow2_le_iff)
  finally show ?thesis .
qed

lemma amm_prices_exact:
  "0 \<le> yv \<Longrightarrow> 0 \<le> nv \<Longrightarrow>
   1000 \<le> total_shares yv nv defaultInitialLiquidity \<and>
   (\<exists>pr. calculateAMMPrices yv nv defaultInitialLiquidity = Some pr \<and>
      0 < amm_yesPrice pr \<and> amm_yesPrice pr < 100 \<and>
      0 < amm_noPrice pr \<and> amm_noPrice pr < 100)"
  apply (simp add: calculateAMMPrices_def num_div_def total_sum defaultInitialLiquidity_def)
  apply (simp add: yesShares_def noShares_def field_simps)
  done

text \<open>
  C8, as the code has it. For volumes that are not negative (and within \<open>pow2 1000\<close>,
  which every sum of \<open>uint256\<close> collateral is), the denominator \<open>yesShares + noShares\<close>
  that the source computes is at least the initial liquidity 1000, hence positive; the
  division is defined, and both prices are greater than 0 and at most 100. In exact
  arithmetic both are strictly below 100; in the doubles of the source a price can be
  exactly 100.
\<close>

theorem amm_prices_in_range:
  assumes "0 \<le> yv" and "yv \<le> pow2 1000" and "0 \<le> nv" and "nv \<le> pow2 1000"
  shows "(\<exists>t pr. total_double yv nv defaultInitialLiquidity = Some t \<and> 1000 \<le> t \<and> 0 < t \<and>
            calculateAMMPrices_double yv nv defaultInitialLiquidity = Some pr \<and>
            0 < amm_yesPrice pr \<and> amm_yesPrice pr \<le> 100 \<and>
            0 < amm_noPrice pr \<and> amm_noPrice pr \<le> 100) \<and>
         1000 \<le> total_shares yv nv defaultInitialLiquidity \<and>
         (\<exists>pr. calculateAMMPrices yv nv defaultInitialLiquidity = Some pr \<and>
            0 < amm_yesPrice pr \<and> amm_yesPrice pr < 100 \<and>
            0 < amm_noPrice pr \<and> amm_noPrice pr < 100)"
  using double_prices_bounds [OF assms] amm_prices_exact [OF assms(1,3)] by simp

theorem amm_prices_in_range_witness:
  "(0::rat) \<le> 10 \<and> 10 \<le> pow2 1000 \<and> (0::rat) \<le> 0 \<and> 0 \<le> pow2 1000 \<and>
   (\<exists>t pr. total_double 10 0 defaultInitialLiquidity = Some t \<and> 1000 \<le> t \<and> 0 < t \<and>
      calculateAMMPrices_double 10 0 defaultInitialLiquidity = Some pr \<and>
      0 < amm_yesPrice pr \<and> amm_yesPrice pr \<le> 100 \<and>
      0 < amm_noPrice pr \<and> amm_noPrice pr \<le> 100) \<and>
   1000 \<le> total_shares 10 0 defaultInitialLiquidity \<and>
   (\<exists>pr. calculateAMMPrices 10 0 defaultInitialLiquidity = Some pr \<and>
      0 < amm_yesPrice pr \<and> amm_yesPrice pr < 100 \<and>
      0 < amm_noPrice pr \<and> amm_noPrice pr < 100)"
proof -
  have h: "(10::rat) \<le> pow2 1000" "0 \<le> pow2 1000"
    using pow2_1000_ge by linarith+
  from amm_prices_in_range [of 10 0] h show ?thesis by simp
qed

text \<open>
  C8 as stated fails on its upper bound: at \<open>yesVolume = 10^19\<close> USDC and
  \<open>noVolume = 0\<close> the sum \<open>500 + 10^19\<close> rounds to \<open>10^19\<close>, the total equals
  \<open>yesShares\<close>, and the source returns \<open>noPrice\<close> exactly 100.
\<close>

theorem amm_prices_in_range_counterexample:
  "(0::rat) \<le> 10000000000000000000 \<and>
   map_option amm_noPrice (calculateAMMPrices_double 10000000000000000000 0 defaultInitialLiquidity)
     = Some 100"
proof -
  have n500: "nearest 500 = 500" and n1: "nearest 1 = 1" and n100: "nearest 100 = 100"
    by (rule nearest_representable; simp add: representable_consts)+
  have "map_option amm_noPrice
      (calculateAMMPrices_double 10000000000000000000 0 defaultInitialLiquidity) =
      Some (nearest (nearest (nearest (500 + 10000000000000000000)
        / nearest (nearest (500 + 10000000000000000000) + nearest (500 + 0))) * 100))"
    using calculateAMMPrices_double_eq(2) [of 10000000000000000000 0] big_volume_in_range
      pow2_pos [of 1000]
    by simp
  also have "\<dots> = Some 100"
    by (simp add: n500 nearest_absorbs_500 n1 n100)
  finally show ?thesis by simp
qed


section \<open>Market statistics from the positions\<close>

lemma foldl_add_volume:
  "foldl add_volume (a, b) xs =
     (a + sum_list (map (\<lambda>p. formatUnits6 (collateral p)) (filter isLongYes xs)),
      b + sum_list (map (\<lambda>p. formatUnits6 (collateral p)) (filter (\<lambda>p. \<not> isLongYes p) xs)))"
  by (induction xs arbitrary: a b) (simp_all add: add_volume_def Let_def add.assoc)

lemma formatUnits6_nonneg: "0 \<le> formatUnits6 v"
  by (simp add: formatUnits6_def)

lemma sum_list_formatUnits6_nonneg: "0 \<le> sum_list (map (\<lambda>p. formatUnits6 (collateral p)) xs)"
  by (induction xs) (simp_all add: formatUnits6_nonneg)

lemma filter_and: "filter P (filter Q xs) = filter (\<lambda>x. Q x \<and> P x) xs"
  by (induction xs) auto

lemma market_volumes_eq:
  "market_volumes ps market =
     (sum_list (map (\<lambda>p. formatUnits6 (collateral p))
        (filter (\<lambda>p. marketId p = title market \<and> isOpen p \<and> isLongYes p) ps)),
      sum_list (map (\<lambda>p. formatUnits6 (collateral p))
        (filter (\<lambda>p. marketId p = title market \<and> isOpen p \<and> \<not> isLongYes p) ps)))"
  by (simp only: market_volumes_def marketPositions_def foldl_add_volume filter_and conj_assoc add_0)

lemma market_volumes_nonneg:
  "0 \<le> fst (market_volumes ps market)" "0 \<le> snd (market_volumes ps market)"
  by (simp_all add: market_volumes_eq sum_list_formatUnits6_nonneg)

lemma market_entry_eq:
  "\<exists>pr. calculateAMMPrices (fst (market_volumes ps market)) (snd (market_volumes ps market))
            defaultInitialLiquidity = Some pr \<and>
     market_entry ps market =
       Some \<lparr>stats_id = market_id market,
             yesVolume = fst (market_volumes ps market),
             noVolume = snd (market_volumes ps market),
             yesPrice = amm_yesPrice pr,
             noPrice = amm_noPrice pr,
             totalVolume = fst (market_volumes ps market) + snd (market_volumes ps market)\<rparr>"
proof -
  have "total_shares (fst (market_volumes ps market)) (snd (market_volumes ps market))
          defaultInitialLiquidity \<noteq> 0"
    by (rule total_nonzero) (simp_all add: market_volumes_nonneg defaultInitialLiquidity_def)
  then show ?thesis
    by (simp add: market_entry_def Let_def calculateAMMPrices_defined)
qed

lemma stats_loop_keeps:
  "stats_loop ps ms st = Some st' \<Longrightarrow> k \<notin> market_id ` set ms \<Longrightarrow> st' k = st k"
  by (induction ms arbitrary: st) (auto split: option.splits)

lemma stats_loop_total: "\<exists>st'. stats_loop ps ms st = Some st'"
proof (induction ms arbitrary: st)
  case Nil
  show ?case by simp
next
  case (Cons m ms)
  obtain e where "market_entry ps m = Some e"
    using market_entry_eq [of ps m] by blast
  then show ?case using Cons.IH by simp
qed

lemma stats_loop_entry:
  "stats_loop ps ms st = Some st' \<Longrightarrow> distinct (map market_id ms) \<Longrightarrow> m \<in> set ms \<Longrightarrow>
   st' (market_id m) = market_entry ps m"
proof (induction ms arbitrary: st)
  case Nil
  then show ?case by simp
next
  case (Cons a ms)
  obtain e where e: "market_entry ps a = Some e"
    using market_entry_eq [of ps a] by blast
  with Cons.prems have loop: "stats_loop ps ms (st(market_id a \<mapsto> e)) = Some st'"
    by simp
  show ?case
  proof (cases "m = a")
    case True
    have "market_id a \<notin> market_id ` set ms"
      using Cons.prems(2) by simp
    with loop have "st' (market_id a) = (st(market_id a \<mapsto> e)) (market_id a)"
      by (rule stats_loop_keeps)
    with e True show ?thesis by simp
  next
    case False
    with Cons.prems have "distinct (map market_id ms)" "m \<in> set ms" by simp_all
    then show ?thesis by (rule Cons.IH [OF loop])
  qed
qed

lemma MARKETS_distinct: "distinct (map market_id MARKETS)"
  by (simp add: MARKETS_def)

lemma hd_MARKETS:
  "hd MARKETS \<in> set MARKETS"
  "title (hd MARKETS) = ''Will SpaceX Starship reach orbit in 2025?''"
  "market_id (hd MARKETS) = 1"
  by (simp_all add: MARKETS_def)

lemma page_idle_simps:
  "wallets page_idle = [''0xaB'']"
  "positions page_idle = [toPosition 1 tuple_spot, toPosition 2 tuple_leveraged]"
  by (simp_all add: page_idle_def)

text \<open>
  C6. The statistics are computed from the positions the page holds: the effect always
  yields a table, and under the id of every market of \<open>MARKETS\<close> it stores \<open>yesVolume\<close>,
  the sum of the collateral (read with six decimals) of the open positions on that
  market that are long YES, \<open>noVolume\<close>, the same sum over those that are not,
  \<open>totalVolume = yesVolume + noVolume\<close>, and as \<open>yesPrice\<close> and \<open>noPrice\<close> exactly
  what \<open>calculateAMMPrices(yesVolume, noVolume)\<close> returns.
\<close>

theorem marketStats_from_positions:
  "market \<in> set MARKETS \<Longrightarrow>
   \<exists>stats pr.
     computeMarketStats ps = Some stats \<and>
     calculateAMMPrices
       (sum_list (map (\<lambda>p. formatUnits6 (collateral p))
          (filter (\<lambda>p. marketId p = title market \<and> isOpen p \<and> isLongYes p) ps)))
       (sum_list (map (\<lambda>p. formatUnits6 (collateral p))
          (filter (\<lambda>p. marketId p = title market \<and> isOpen p \<and> \<not> isLongYes p) ps)))
       defaultInitialLiquidity = Some pr \<and>
     stats (market_id market) =
       Some \<lparr>stats_id = market_id market,
             yesVolume = sum_list (map (\<lambda>p. formatUnits6 (collateral p))
               (filter (\<lambda>p. marketId p = title market \<and> isOpen p \<and> isLongYes p) ps)),
             noVolume = sum_list (map (\<lambda>p. formatUnits6 (collateral p))
               (filter (\<lambda>p. marketId p = title market \<and> isOpen p \<and> \<not> isLongYes p) ps)),
             yesPrice = amm_yesPrice pr,
             noPrice = amm_noPrice pr,
             totalVolume =
               sum_list (map (\<lambda>p. formatUnits6 (collateral p))
                 (filter (\<lambda>p. marketId p = title market \<and> isOpen p \<and> isLongYes p) ps)) +
               sum_list (map (\<lambda>p. formatUnits6 (collateral p))
                 (filter (\<lambda>p. marketId p = title market \<and> isOpen p \<and> \<not> isLongYes p) ps))\<rparr>"
proof -
  assume m: "market \<in> set MARKETS"
  obtain stats where stats: "computeMarketStats ps = Some stats"
    using stats_loop_total [of ps MARKETS Map.empty] by (auto simp: computeMarketStats_def)
  then have "stats (market_id market) = market_entry ps market"
    using m MARKETS_distinct by (simp add: computeMarketStats_def stats_loop_entry)
  with stats market_entry_eq [of ps market] show ?thesis
    by (simp add: market_volumes_eq)
qed

theorem marketStats_from_positions_witness:
  "hd MARKETS \<in> set MARKETS \<and>
   (\<exists>stats. computeMarketStats (positions page_idle) = Some stats \<and>
      stats 1 =
        Some \<lparr>stats_id = 1, yesVolume = 20, noVolume = 0, yesPrice = 2500 / 51,
              noPrice = 2600 / 51, totalVolume = 20\<rparr>)"
proof -
  have yv: "sum_list (map (\<lambda>p. formatUnits6 (collateral p))
      (filter (\<lambda>p. marketId p = title (hd MARKETS) \<and> isOpen p \<and> isLongYes p)
        (positions page_idle))) = 20"
    by (simp add: hd_MARKETS page_idle_simps toPosition_def tuple_spot_def tuple_leveraged_def
        formatUnits6_def)
  have nv: "sum_list (map (\<lambda>p. formatUnits6 (collateral p))
      (filter (\<lambda>p. marketId p = title (hd MARKETS) \<and> isOpen p \<and> \<not> isLongYes p)
        (positions page_idle))) = 0"
    by (simp add: hd_MARKETS page_idle_simps toPosition_def tuple_spot_def tuple_leveraged_def)
  have amm: "calculateAMMPrices 20 0 defaultInitialLiquidity =
      Some \<lparr>amm_yesPrice = 2500 / 51, amm_noPrice = 2600 / 51\<rparr>"
    by (simp add: calculateAMMPrices_def num_div_def total_sum yesShares_def noShares_def
        defaultInitialLiquidity_def)
  from marketStats_from_positions [OF hd_MARKETS(1), of "positions page_idle"]
  show ?thesis
    unfolding yv nv amm hd_MARKETS(3) by (auto simp: hd_MARKETS(1))
qed

section \<open>The positions that fetchPositions assembles\<close>

lemma position_id_toPosition: "position_id (toPosition i pos) = i"
  by (simp add: toPosition_def)

lemma fetch_step_mem:
  "p \<in> set (fetch_step c a acc i) \<Longrightarrow>
   p \<in> set acc \<or>
   (\<exists>pos. getPosition c i = Some pos \<and> toLowerCase (pos_trader pos) = toLowerCase a \<and>
          pos_isOpen pos \<and> p = toPosition i pos)"
  by (auto simp: fetch_step_def split: option.splits if_splits)

lemma foldl_fetch_step_mem:
  "p \<in> set (foldl (fetch_step c a) acc is) \<Longrightarrow>
   p \<in> set acc \<or>
   (\<exists>i pos. i \<in> set is \<and> getPosition c i = Some pos \<and>
      toLowerCase (pos_trader pos) = toLowerCase a \<and> pos_isOpen pos \<and> p = toPosition i pos)"
proof (induction "is" arbitrary: acc)
  case Nil
  then show ?case by simp
next
  case (Cons i "is")
  from Cons.prems have "p \<in> set (foldl (fetch_step c a) (fetch_step c a acc i) is)" by simp
  from Cons.IH [OF this] show ?case
    using fetch_step_mem [of p c a acc i] by auto
qed

lemma fetch_loop_mem:
  "p \<in> set (fetch_loop c a n) \<Longrightarrow>
   \<exists>i pos. 1 \<le> i \<and> i < n \<and> getPosition c i = Some pos \<and>
      toLowerCase (pos_trader pos) = toLowerCase a \<and> pos_isOpen pos \<and> p = toPosition i pos"
  using foldl_fetch_step_mem [of p c a "[]" "[1..<n]"] by (auto simp: fetch_loop_def)

lemma lower_samples:
  "toLowerCase ''0xAb'' = ''0xab''" "toLowerCase ''0xaB'' = ''0xab''"
  by code_simp+

lemma upt_1_3: "[1..<3] = [1, 2::nat]"
  by (simp add: upt_rec)

lemma chain_two_simps:
  "nextPositionId chain_two = Some 3" "getPosition chain_two 1 = Some tuple_spot"
  by (simp_all add: chain_two_def)

lemma fetch_loop_two:
  "fetch_loop chain_two ''0xaB'' 3 = [toPosition 1 tuple_spot, toPosition 2 tuple_leveraged]"
  unfolding fetch_loop_def upt_1_3
  by (simp add: fetch_step_def chain_two_def lower_samples tuple_spot_def tuple_leveraged_def)

lemma fetchPositions_example:
  "positions (fetchPositions chain_two page_idle) =
     [toPosition 1 tuple_spot, toPosition 2 tuple_leveraged]"
  by (simp add: fetchPositions_def page_idle_simps chain_two_simps fetch_loop_two)

text \<open>
  C7. After a fetch that reaches the chain, every position of the page was read from the
  contract: under its id the contract holds a tuple whose \<open>marketId\<close>, \<open>trader\<close>,
  \<open>isLongYes\<close>, \<open>entryPrice\<close>, \<open>collateral\<close>, \<open>leverage\<close>, \<open>openedAt\<close> and \<open>isOpen\<close> are
  the fields of the record, unchanged but for the conversion of \<open>bigint\<close> to number, and
  the two further fields \<open>currentPrice\<close> and \<open>pnl\<close> are derived from that tuple. The one
  remaining field of the record, its id, is the index under which the tuple was read.
\<close>

theorem fetchPositions_copies_tuple:
  assumes "wallets s = wallet # ws" and "nextPositionId c = Some nextId"
    and "p \<in> set (positions (fetchPositions c s))"
  shows "\<exists>pos. getPosition c (position_id p) = Some pos \<and>
           p = \<lparr>position_id = position_id p,
                marketId = pos_marketId pos,
                trader = pos_trader pos,
                isLongYes = pos_isLongYes pos,
                entryPrice = of_nat (pos_entryPrice pos),
                collateral = pos_collateral pos,
                leverage = of_nat (pos_leverage pos),
                openedAt = of_nat (pos_openedAt pos),
                isOpen = pos_isOpen pos,
                currentPrice = Some (fetch_currentPrice pos),
                pnl = Some (fetch_pnl pos)\<rparr>"
proof -
  from assms have "p \<in> set (fetch_loop c wallet nextId)"
    by (simp add: fetchPositions_def)
  then obtain i pos where "getPosition c i = Some pos" "p = toPosition i pos"
    using fetch_loop_mem by blast
  then show ?thesis by (auto simp: toPosition_def)
qed

theorem fetchPositions_copies_tuple_witness:
  "wallets page_idle = ''0xaB'' # [] \<and> nextPositionId chain_two = Some 3 \<and>
   toPosition 1 tuple_spot \<in> set (positions (fetchPositions chain_two page_idle)) \<and>
   (\<exists>pos. getPosition chain_two 1 = Some pos \<and>
      toPosition 1 tuple_spot =
        \<lparr>position_id = 1,
         marketId = pos_marketId pos,
         trader = pos_trader pos,
         isLongYes = pos_isLongYes pos,
         entryPrice = of_nat (pos_entryPrice pos),
         collateral = pos_collateral pos,
         leverage = of_nat (pos_leverage pos),
         openedAt = of_nat (pos_openedAt pos),
         isOpen = pos_isOpen pos,
         currentPrice = Some (fetch_currentPrice pos),
         pnl = Some (fetch_pnl pos)\<rparr>)"
proof -
  have w: "wallets page_idle = ''0xaB'' # []"
    by (simp add: page_idle_simps)
  have n: "nextPositionId chain_two = Some 3"
    by (simp add: chain_two_simps)
  have mem: "toPosition 1 tuple_spot \<in> set (positions (fetchPositions chain_two page_idle))"
    by (simp add: fetchPositions_example)
  from fetchPositions_copies_tuple [OF w n mem] w n mem show ?thesis
    by (simp only: position_id_toPosition simp_thms)
qed

section \<open>The PnL of a position\<close>

lemma fetch_pnl_perpetual:
  "pos_leverage pos \<noteq> 1 \<Longrightarrow>
   fetch_pnl pos =
     ((fetch_currentPrice pos - of_nat (pos_entryPrice pos)) / 100)
       * formatUnits6 (pos_collateral pos) * of_nat (pos_leverage pos)"
  by (simp add: fetch_pnl_def fetch_path_def)

lemma fetch_pnl_spot:
  "pos_leverage pos = 1 \<Longrightarrow>
   fetch_pnl pos = (fetch_currentPrice pos - of_nat (pos_entryPrice pos)) / 100"
  by (simp add: fetch_pnl_def fetch_path_def)

lemma close_pnl_formula:
  "close_pnl stats_of position =
     ((close_currentPrice stats_of position - entryPrice position) / 100)
       * formatUnits6 (collateral position) * leverage position"
  by (simp add: close_pnl_def close_path_def)

text \<open>
  C1. The realized PnL of \<^verbatim>\<open>handleClosePosition\<close> is
  \<open>(currentPrice - entryPrice)/100 * collateral * leverage\<close> for every leverage
  (\<open>close_pnl_formula\<close>), and so is the unrealized PnL of \<^verbatim>\<open>fetchPositions\<close> for every
  leverage other than 1 (\<open>fetch_pnl_perpetual\<close>). At leverage 1 \<^verbatim>\<open>fetchPositions\<close> leaves
  the collateral out: for the spot position of ten USDC entered at 50 on a market that
  stands at 78 it stores 0.28 where the formula, and \<^verbatim>\<open>handleClosePosition\<close> for the same
  position, give 2.80.
\<close>

theorem fetch_pnl_spot_omits_collateral:
  "pos_leverage tuple_spot = 1 \<and>
   fetch_currentPrice tuple_spot = 78 \<and>
   fetch_pnl tuple_spot = 7 / 25 \<and>
   ((fetch_currentPrice tuple_spot - of_nat (pos_entryPrice tuple_spot)) / 100)
     * formatUnits6 (pos_collateral tuple_spot) * of_nat (pos_leverage tuple_spot) = 14 / 5 \<and>
   close_pnl no_stats (toPosition 1 tuple_spot) = 14 / 5"
  by (simp add: tuple_spot_def fetch_pnl_def fetch_path_def fetch_currentPrice_def MARKETS_def
      formatUnits6_def close_pnl_def close_path_def close_currentPrice_def toPosition_def
      no_stats_def)

section \<open>The branch on the leverage\<close>



section \<open>Closing a position\<close>

lemma first_throw_None: "first_throw r = None \<longleftrightarrow> (\<forall>c. r c)"
proof
  assume "first_throw r = None"
  then have all: "\<forall>c \<in> set close_calls. r c"
    by (simp add: first_throw_def find_None_iff)
  show "\<forall>c. r c"
  proof
    fix c show "r c" using all by (cases c) (simp_all add: close_calls_def)
  qed
next
  assume "\<forall>c. r c"
  then show "first_throw r = None" by (simp add: first_throw_def find_None_iff)
qed

text \<open>
  C9, as the code has it. \<^verbatim>\<open>handleClosePosition\<close> changes the list of positions only
  after the \<open>closePosition\<close> transaction was sent and confirmed, and then by removing
  the position of the given id; if a call throws behind the two guards, the list is
  unchanged and the notification is the error \<open>Failed to close position\<close>; in every
  outcome behind the two guards \<open>closingPositionId\<close> is \<open>null\<close> at the end. When a
  guard returns (no wallet, or no position of that id) the handler changes nothing,
  so \<open>closingPositionId\<close> keeps the value it had.
\<close>

theorem handleClosePosition_effects:
  "(positions (handleClosePosition resolves positionId s) \<noteq> positions s \<longrightarrow>
      resolves SendClosePosition \<and> resolves WaitConfirmation \<and>
      positions (handleClosePosition resolves positionId s) =
        filter (\<lambda>q. position_id q \<noteq> positionId) (positions s)) \<and>
   (wallets s \<noteq> [] \<and> find (\<lambda>p. position_id p = positionId) (positions s) \<noteq> None \<and>
    (\<exists>c. \<not> resolves c) \<longrightarrow>
      positions (handleClosePosition resolves positionId s) = positions s \<and>
      notification (handleClosePosition resolves positionId s) =
        Some \<lparr>message = FailedToClose, ntype = error\<rparr>) \<and>
   (wallets s \<noteq> [] \<and> find (\<lambda>p. position_id p = positionId) (positions s) \<noteq> None \<longrightarrow>
      closingPositionId (handleClosePosition resolves positionId s) = None) \<and>
   (wallets s = [] \<or> find (\<lambda>p. position_id p = positionId) (positions s) = None \<longrightarrow>
      handleClosePosition resolves positionId s = s)"
proof (cases "first_throw resolves")
  case None
  then have "\<forall>c. resolves c" by (simp add: first_throw_None)
  with None show ?thesis
    by (auto simp: handleClosePosition_def close_succeeded_def showNotification_def Let_def
        split: option.splits)
next
  case (Some c)
  then have "\<exists>c. \<not> resolves c" using first_throw_None [of resolves] by auto
  with Some show ?thesis
    by (auto simp: handleClosePosition_def close_failed_def showNotification_def Let_def
        split: option.splits)
qed

theorem handleClosePosition_effects_witness:
  "positions (handleClosePosition all_resolve 1 page_idle) \<noteq> positions page_idle \<and>
   all_resolve SendClosePosition \<and> all_resolve WaitConfirmation \<and>
   positions (handleClosePosition all_resolve 1 page_idle) = [toPosition 2 tuple_leveraged] \<and>
   wallets page_idle \<noteq> [] \<and>
   find (\<lambda>p. position_id p = 1) (positions page_idle) \<noteq> None \<and>
   \<not> confirmation_throws WaitConfirmation \<and>
   positions (handleClosePosition confirmation_throws 1 page_idle) = positions page_idle \<and>
   notification (handleClosePosition confirmation_throws 1 page_idle) =
     Some \<lparr>message = FailedToClose, ntype = error\<rparr> \<and>
   closingPositionId (handleClosePosition confirmation_throws 1 page_idle) = None \<and>
   wallets page_no_wallet = [] \<and>
   handleClosePosition all_resolve 1 page_no_wallet = page_no_wallet"
proof -
  have found: "find (\<lambda>p. position_id p = 1) (positions page_idle) = Some (toPosition 1 tuple_spot)"
    by (simp add: page_idle_simps toPosition_def)
  have throws: "\<exists>c. \<not> confirmation_throws c"
    by (rule exI [of _ WaitConfirmation]) (simp add: confirmation_throws_def)
  have changed: "positions (handleClosePosition all_resolve 1 page_idle) \<noteq> positions page_idle"
    by (simp add: handleClosePosition_def found page_idle_simps first_throw_def close_calls_def
        all_resolve_def close_succeeded_def showNotification_def Let_def toPosition_def)
  have nowallet: "wallets page_no_wallet = []"
    by (simp add: page_no_wallet_def)
  show ?thesis
    using handleClosePosition_effects [of all_resolve 1 page_idle]
      handleClosePosition_effects [of confirmation_throws 1 page_idle]
      handleClosePosition_effects [of all_resolve 1 page_no_wallet]
      found throws changed nowallet
    by (simp add: page_idle_simps toPosition_def confirmation_throws_def)
qed

text \<open>
  C9 as stated fails in its last part: while the position 2 is being closed
  (\<open>closingPositionId = 2\<close>), a call for the id 7, which the page does not hold, returns
  at the second guard and leaves \<open>closingPositionId\<close> at 2, not at \<open>null\<close>.
\<close>

theorem handleClosePosition_counterexample:
  "closingPositionId (handleClosePosition all_resolve 7 page_busy) = Some 2"
  by (simp add: handleClosePosition_def page_busy_def page_idle_def toPosition_def)

section \<open>The collateral of a trade\<close>

text \<open>
  C10. In \<^verbatim>\<open>handleTrade\<close> the spot branch and the leverage branch compute the same
  collateral, \<open>parseUnits(amount.toFixed(6), 6)\<close>, where \<open>amount\<close> is 10 when the
  input does not parse; so the collateral does not change with the leverage, and when
  the handler reaches the call of \<open>openPosition\<close> it reaches it for every other
  leverage too, with the same value attached.
\<close>

theorem collateral_independent_of_leverage:
  "collateralAmount parseFloat inp = parseUnits6 (toFixed6 (trade_amount parseFloat inp)) \<and>
   (parseFloat (tradeAmount inp) = NaN \<longrightarrow> trade_amount parseFloat inp = Finite 10) \<and>
   collateralAmount parseFloat (inp\<lparr>trade_leverage := l\<rparr>) = collateralAmount parseFloat inp \<and>
   (handleTrade parseFloat setup authenticated ws inp = OpenPosition call \<longrightarrow>
      (\<exists>call'. handleTrade parseFloat setup authenticated ws (inp\<lparr>trade_leverage := l\<rparr>)
                 = OpenPosition call' \<and>
         call_value call' = call_value call))"
  by (auto simp: collateralAmount_def trade_amount_def or_10_def handleTrade_def Let_def
      split: path.splits list.splits sum.splits if_splits)

lemma toFixed6_ten: "toFixed6 (Finite 10) = Decimal6 10000000"
proof -
  have "\<lfloor>\<bar>10::rat\<bar> * 1000000 + 1 / 2\<rfloor> = 10000000"
    by (rule floor_unique) simp_all
  then show ?thesis by (simp add: toFixed6_def)
qed

theorem collateral_independent_of_leverage_witness:
  "parseFloat_sample (tradeAmount trade_spot) = NaN \<and>
   trade_amount parseFloat_sample trade_spot = Finite 10 \<and>
   collateralAmount parseFloat_sample trade_spot = Inr 10000000 \<and>
   collateralAmount parseFloat_sample (trade_spot\<lparr>trade_leverage := 3\<rparr>) = Inr 10000000 \<and>
   handleTrade parseFloat_sample True True [''0xaB''] trade_spot = OpenPosition call_spot \<and>
   (\<exists>call'. handleTrade parseFloat_sample True True [''0xaB''] (trade_spot\<lparr>trade_leverage := 3\<rparr>)
              = OpenPosition call' \<and>
      call_value call' = 10000000)"
proof -
  note indep = collateral_independent_of_leverage
    [of parseFloat_sample trade_spot 3 True True "[''0xaB'']" call_spot]
  have nan: "parseFloat_sample (tradeAmount trade_spot) = NaN"
    by (simp add: parseFloat_sample_def trade_spot_def)
  with indep have amount: "trade_amount parseFloat_sample trade_spot = Finite 10"
    by blast
  from indep have "collateralAmount parseFloat_sample trade_spot =
      parseUnits6 (toFixed6 (trade_amount parseFloat_sample trade_spot))"
    by blast
  with amount have spot: "collateralAmount parseFloat_sample trade_spot = Inr 10000000"
    by (simp add: parseUnits6_def toFixed6_ten)
  from indep have "collateralAmount parseFloat_sample (trade_spot\<lparr>trade_leverage := 3\<rparr>) =
      collateralAmount parseFloat_sample trade_spot"
    by blast
  with spot have lev: "collateralAmount parseFloat_sample (trade_spot\<lparr>trade_leverage := 3\<rparr>) =
      Inr 10000000"
    by simp
  have sent: "handleTrade parseFloat_sample True True [''0xaB''] trade_spot = OpenPosition call_spot"
    by (simp add: handleTrade_def spot) (simp add: trade_spot_def call_spot_def hd_MARKETS)
  have val: "call_value call_spot = 10000000"
    by (simp add: call_spot_def)
  from indep sent val
  have "\<exists>call'. handleTrade parseFloat_sample True True [''0xaB'']
            (trade_spot\<lparr>trade_leverage := 3\<rparr>) = OpenPosition call' \<and>
          call_value call' = 10000000"
    by simp
  with nan amount spot lev sent show ?thesis by blast
qed

section \<open>The liquidation check of the agent\<close>

text \<open>
  C2. In a pass of the monitoring agent, \<open>settlePosition\<close> is called for a position
  exactly when the position is open and leveraged and its unrealized PnL against the
  oracle price is below -80% of its collateral: every watched position whose loss
  exceeds the threshold is settled, and none is settled while its loss stays within it.
\<close>

theorem monitor_pass_settles:
  "SettlePosition i \<in> set (monitor_pass price_of ps) \<longleftrightarrow>
   (\<exists>pos. (i, pos) \<in> set ps \<and> pos_isOpen pos \<and> pos_leverage pos > 1 \<and>
      agent_pnl pos (price_of pos) < - (80 / 100) * formatUnits6 (pos_collateral pos))"
  by (induction price_of ps rule: monitor_pass.induct)
     (auto simp: watched_def breaches_threshold_def)

theorem monitor_pass_settles_witness:
  "SettlePosition 2 \<in> set (monitor_pass price_20 [(1, tuple_spot), (2, tuple_leveraged)]) \<and>
   (2::nat, tuple_leveraged) \<in> set [(1, tuple_spot), (2, tuple_leveraged)] \<and>
   agent_pnl tuple_leveraged (price_20 tuple_leveraged) = - 9 \<and>
   - (80 / 100) * formatUnits6 (pos_collateral tuple_leveraged) = - 8"
proof -
  have pnl9: "agent_pnl tuple_leveraged (price_20 tuple_leveraged) = - 9"
    by (simp add: tuple_leveraged_def tuple_spot_def price_20_def agent_pnl_def formatUnits6_def)
  have watched: "pos_isOpen tuple_leveraged \<and> pos_leverage tuple_leveraged > 1 \<and>
      - (80 / 100) * formatUnits6 (pos_collateral tuple_leveraged) = - 8"
    by (simp add: tuple_leveraged_def tuple_spot_def formatUnits6_def)
  with pnl9 show ?thesis
    using monitor_pass_settles [of 2 price_20 "[(1, tuple_spot), (2, tuple_leveraged)]"]
    by auto
qed

end
